theory Spec2Isabelle
  imports Complex_Main
begin

section \<open>Python values, errors and strings\<close>

text \<open>
  The scraper is Python: its job records and plans are dictionaries whose values have no
  static type. A value is modelled by \<open>pyval\<close>, the values \<open>json.loads\<close> can return
  (numbers restricted to integers), and a dictionary by an association list in insertion
  order, read with \<open>map_of\<close>. A raised exception is the left summand of a result.

  A \<open>char\<close> stands for one code point below 256 (Latin-1), so \<open>length\<close> counts what
  Python's \<open>len\<close> counts on such text.
\<close>

datatype error = AttributeError | TypeError | ValueError | OverflowError

datatype pyval =
    PNone
  | PBool bool
  | PInt int
  | PStr string
  | PList "pyval list"
  | PDict "(string \<times> pyval) list"

type_synonym job = "(string \<times> pyval) list"

text \<open>Truth value of an object, as \<open>if x:\<close> and \<open>not x\<close> test it.\<close>

fun truthy :: "pyval \<Rightarrow> bool" where
  "truthy PNone = False"
| "truthy (PBool b) = b"
| "truthy (PInt i) = (i \<noteq> 0)"
| "truthy (PStr s) = (s \<noteq> [])"
| "truthy (PList xs) = (xs \<noteq> [])"
| "truthy (PDict kvs) = (kvs \<noteq> [])"

text \<open>\<open>d.get(k, default)\<close>.\<close>

definition dict_get :: "(string \<times> pyval) list \<Rightarrow> string \<Rightarrow> pyval \<Rightarrow> pyval" where
  "dict_get d k dflt = (case map_of d k of None \<Rightarrow> dflt | Some v \<Rightarrow> v)"

text \<open>
  \<open>x.lower()\<close> exists on strings only. The upper-case letters below 256 are the code
  points 65 to 90, 192 to 214 and 216 to 222; the lower-case letter is 32 further, which on
  these code points is the same as setting the bit of value 32.
\<close>

definition lower_char :: "char \<Rightarrow> char" where
  "lower_char c = (let n = (of_char c :: nat) in
     if (65 \<le> n \<and> n \<le> 90) \<or> (192 \<le> n \<and> n \<le> 214) \<or> (216 \<le> n \<and> n \<le> 222)
     then (case c of Char b0 b1 b2 b3 b4 b5 b6 b7 \<Rightarrow> Char b0 b1 b2 b3 b4 True b6 b7)
     else c)"

definition py_lower :: "string \<Rightarrow> string" where
  "py_lower s = map lower_char s"

definition lower_of :: "pyval \<Rightarrow> error + string" where
  "lower_of v = (case v of PStr s \<Rightarrow> Inr (py_lower s) | _ \<Rightarrow> Inl AttributeError)"

text \<open>\<open>sub in s\<close> on strings.\<close>

fun startswith :: "string \<Rightarrow> string \<Rightarrow> bool" where
  "startswith s [] = True"
| "startswith [] (p # ps) = False"
| "startswith (c # cs) (p # ps) = (c = p \<and> startswith cs ps)"

fun py_in :: "string \<Rightarrow> string \<Rightarrow> bool" where
  "py_in sub [] = (sub = [])"
| "py_in sub (c # cs) = (startswith (c # cs) sub \<or> py_in sub cs)"

definition any_in :: "string list \<Rightarrow> string \<Rightarrow> bool" where
  "any_in terms s = list_ex (\<lambda>t. py_in t s) terms"

text \<open>The character classes \<open>\s\<close> and \<open>\d\<close> of \<open>re\<close> on code points below 256.\<close>

definition is_space :: "char \<Rightarrow> bool" where
  "is_space c = (let n = (of_char c :: nat) in
     (9 \<le> n \<and> n \<le> 13) \<or> (28 \<le> n \<and> n \<le> 32) \<or> n = 133 \<or> n = 160)"

definition is_digit :: "char \<Rightarrow> bool" where
  "is_digit c = (let n = (of_char c :: nat) in 48 \<le> n \<and> n \<le> 57)"

text \<open>
  \<open>int(g)\<close> for a group \<open>g\<close> matched by \<open>\d+\<close>: the interpreter refuses a decimal
  string of more than 4300 digits (\<open>sys.int_info.default_max_str_digits\<close>) with
  ValueError.
\<close>

definition dec :: "string \<Rightarrow> nat" where
  "dec s = foldl (\<lambda>a c. 10 * a + ((of_char c :: nat) - 48)) 0 s"

definition py_int :: "string \<Rightarrow> error + int" where
  "py_int s = (if length s > 4300 then Inl ValueError else Inr (int (dec s)))"

text \<open>A list comprehension \<open>[x for x in xs if p(x)]\<close> whose test may raise.\<close>

fun filter_e :: "('a \<Rightarrow> error + bool) \<Rightarrow> 'a list \<Rightarrow> error + 'a list" where
  "filter_e p [] = Inr []"
| "filter_e p (x # xs) =
     (case p x of Inl e \<Rightarrow> Inl e
      | Inr b \<Rightarrow> (case filter_e p xs of Inl e \<Rightarrow> Inl e
                 | Inr ys \<Rightarrow> Inr (if b then x # ys else ys)))"

definition bind_e :: "error + 'a \<Rightarrow> ('a \<Rightarrow> error + 'b) \<Rightarrow> error + 'b" where
  "bind_e m f = (case m of Inl e \<Rightarrow> Inl e | Inr x \<Rightarrow> f x)"


section \<open>Regular expressions as \<open>re.search\<close> runs them\<close>

text \<open>
  The filter engine reads numbers and units out of free text with three patterns. They are
  built from literals, character classes, concatenation, ordered alternation, greedy
  \<open>?\<close>, greedy \<open>*\<close> on a character class, and numbered groups. \<open>match\<close> is the
  backtracking matcher in continuation-passing style: alternatives are tried in the order
  \<open>re\<close> tries them, and the groups are those of the first successful path. \<open>search\<close>
  tries the start positions from left to right.
\<close>

datatype re =
    Eps
  | Lit char
  | Cls "char \<Rightarrow> bool"
  | Cat re re
  | Alt re re
  | Opt re
  | Star "char \<Rightarrow> bool"
  | Grp nat re

type_synonym groups = "nat \<Rightarrow> string option"

fun star :: "(char \<Rightarrow> bool) \<Rightarrow> (string \<Rightarrow> groups \<Rightarrow> groups option) \<Rightarrow>
    string \<Rightarrow> groups \<Rightarrow> groups option" where
  "star P k [] g = k [] g"
| "star P k (c # cs) g =
     (if P c then (case star P k cs g of Some r \<Rightarrow> Some r | None \<Rightarrow> k (c # cs) g)
      else k (c # cs) g)"

primrec match :: "re \<Rightarrow> (string \<Rightarrow> groups \<Rightarrow> groups option) \<Rightarrow>
    string \<Rightarrow> groups \<Rightarrow> groups option" where
  "match Eps k = (\<lambda>s g. k s g)"
| "match (Lit c) k = (\<lambda>s g. case s of [] \<Rightarrow> None | x # xs \<Rightarrow> if x = c then k xs g else None)"
| "match (Cls P) k = (\<lambda>s g. case s of [] \<Rightarrow> None | x # xs \<Rightarrow> if P x then k xs g else None)"
| "match (Cat a b) k = match a (match b k)"
| "match (Alt a b) k =
     (\<lambda>s g. case match a k s g of Some r \<Rightarrow> Some r | None \<Rightarrow> match b k s g)"
| "match (Opt a) k =
     (\<lambda>s g. case match a k s g of Some r \<Rightarrow> Some r | None \<Rightarrow> k s g)"
| "match (Star P) k = star P k"
| "match (Grp n a) k =
     (\<lambda>s g. match a (\<lambda>s' g'. k s' (g'(n \<mapsto> take (length s - length s') s))) s g)"

fun search :: "re \<Rightarrow> string \<Rightarrow> groups option" where
  "search r [] = match r (\<lambda>s g. Some g) [] (\<lambda>n. None)"
| "search r (c # cs) =
     (case match r (\<lambda>s g. Some g) (c # cs) (\<lambda>n. None) of
        Some g \<Rightarrow> Some g
      | None \<Rightarrow> search r cs)"

text \<open>
  \<open>m.group(n)\<close>, read where group \<open>n\<close> takes part in every match of the pattern.
\<close>

definition group_str :: "groups \<Rightarrow> nat \<Rightarrow> string" where
  "group_str g n = (case g n of None \<Rightarrow> [] | Some s \<Rightarrow> s)"

definition lit :: "string \<Rightarrow> re" where
  "lit s = foldr (\<lambda>c r. Cat (Lit c) r) s Eps"

definition alts :: "string list \<Rightarrow> re" where
  "alts ws = foldr (\<lambda>w r. Alt (lit w) r) (butlast ws) (lit (last ws))"

definition digits1 :: re where
  "digits1 = Cat (Cls is_digit) (Star is_digit)"

definition spaces :: re where
  "spaces = Star is_space"

text \<open>\<^verbatim>\<open>(\d+)\s*(hour|day|week|month)s?\s*ago\<close>\<close>

definition time_re :: re where
  "time_re = Cat (Grp 1 digits1) (Cat spaces
     (Cat (Grp 2 (alts [''hour'', ''day'', ''week'', ''month'']))
       (Cat (Opt (Lit CHR ''s'')) (Cat spaces (lit ''ago'')))))"

text \<open>\<^verbatim>\<open>(salary|compensation)\s*(>|above|over|more than)\s*(\d+)\s*(k|l|lpa|lakh|cr|crore)\<close>\<close>

definition floor_re :: re where
  "floor_re = Cat (Grp 1 (alts [''salary'', ''compensation''])) (Cat spaces
     (Cat (Grp 2 (alts [''>'', ''above'', ''over'', ''more than''])) (Cat spaces
       (Cat (Grp 3 digits1) (Cat spaces
         (Grp 4 (alts [''k'', ''l'', ''lpa'', ''lakh'', ''cr'', ''crore''])))))))"

text \<open>\<^verbatim>\<open>(\d+(?:\.\d+)?)\s*-?\s*(\d+(?:\.\d+)?)?\s*(lpa|l|lakh|lakhs|k|cr|crore)\<close>\<close>

definition decimal :: re where
  "decimal = Cat digits1 (Opt (Cat (Lit CHR ''.'') digits1))"

definition salary_re :: re where
  "salary_re = Cat (Grp 1 decimal) (Cat spaces (Cat (Opt (Lit CHR ''-'')) (Cat spaces
     (Cat (Opt (Grp 2 decimal)) (Cat spaces
       (Grp 3 (alts [''lpa'', ''l'', ''lakh'', ''lakhs'', ''k'', ''cr'', ''crore''])))))))"


section \<open>Numbers of the salary comparison\<close>

text \<open>
  \<open>float(g)\<close>, \<open>x / 100\<close> and \<open>x * 100\<close> produce IEEE 754 doubles. A non-negative
  double is \<open>Fin m e\<close>, the value \<open>m * 2 ^ e\<close>, or infinity. \<open>to_double p q\<close> is the
  double nearest to the fraction \<open>p / q\<close> (ties to the even mantissa, 53 bits, least
  exponent \<open>-1074\<close>), infinite from \<open>2 ^ dbl_max_exp\<close> on.
\<close>

datatype pyfloat = Fin nat int | PosInf

text \<open>\<open>bits n\<close> is the length of \<open>n\<close> in binary.\<close>

fun bits :: "nat \<Rightarrow> nat" where
  "bits n = (if n = 0 then 0 else Suc (bits (n div 2)))"

declare bits.simps [simp del]

definition ilog2 :: "nat \<Rightarrow> nat \<Rightarrow> int" where
  "ilog2 p q = (let k = int (bits p) - int (bits q) in
     if (if 0 \<le> k then q * 2 ^ nat k \<le> p else q \<le> p * 2 ^ nat (- k)) then k else k - 1)"

definition round_half_even :: "nat \<Rightarrow> nat \<Rightarrow> nat" where
  "round_half_even n d = (let f = n div d; r = n mod d in
     if 2 * r < d then f else if d < 2 * r then f + 1 else if even f then f else f + 1)"

definition dbl_max_exp :: nat where
  "dbl_max_exp = 1024"

definition to_double :: "nat \<Rightarrow> nat \<Rightarrow> pyfloat" where
  "to_double p q =
     (if p = 0 then Fin 0 0
      else let e = max (ilog2 p q - 52) (- 1074);
               m = (if 0 \<le> e then round_half_even p (q * 2 ^ nat e)
                    else round_half_even (p * 2 ^ nat (- e)) q)
           in if 0 \<le> e \<and> 2 ^ dbl_max_exp \<le> m * 2 ^ nat e then PosInf else Fin m e)"

text \<open>
  \<open>float(g)\<close> for a group \<open>g\<close> matched by \<^verbatim>\<open>\d+(?:\.\d+)?\<close>; \<open>float\<close> has no limit
  on the number of digits.
\<close>

definition py_float :: "string \<Rightarrow> pyfloat" where
  "py_float s = (let ip = takeWhile is_digit s; fp = drop (Suc (length ip)) s
     in to_double (dec (ip @ fp)) (10 ^ length fp))"

definition fdiv :: "pyfloat \<Rightarrow> nat \<Rightarrow> pyfloat" where
  "fdiv x k = (case x of PosInf \<Rightarrow> PosInf
     | Fin m e \<Rightarrow> if 0 \<le> e then to_double (m * 2 ^ nat e) k
                  else to_double m (k * 2 ^ nat (- e)))"

definition fmul :: "pyfloat \<Rightarrow> nat \<Rightarrow> pyfloat" where
  "fmul x k = (case x of PosInf \<Rightarrow> PosInf
     | Fin m e \<Rightarrow> if 0 \<le> e then to_double (m * k * 2 ^ nat e) 1
                  else to_double (m * k) (2 ^ nat (- e)))"

text \<open>
  A salary floor is an \<open>int\<close> or, after the division of thousands, a \<open>float\<close>.
  \<open>amount / 100\<close> on an \<open>int\<close> is the nearest double and raises OverflowError where
  that is out of range.
\<close>

datatype pynum = NInt int | NFloat pyfloat

definition int_truediv :: "nat \<Rightarrow> nat \<Rightarrow> error + pynum" where
  "int_truediv a k = (case to_double a k of PosInf \<Rightarrow> Inl OverflowError
     | Fin m e \<Rightarrow> Inr (NFloat (Fin m e)))"

definition float_val :: "nat \<Rightarrow> int \<Rightarrow> rat" where
  "float_val m e = (if 0 \<le> e then of_nat m * 2 ^ nat e else of_nat m / 2 ^ nat (- e))"

fun num_val :: "pynum \<Rightarrow> rat option" where
  "num_val (NInt i) = Some (of_int i)"
| "num_val (NFloat (Fin m e)) = Some (float_val m e)"
| "num_val (NFloat PosInf) = None"

text \<open>\<open>x >= y\<close> for a float \<open>x\<close> and a number \<open>y\<close>: Python compares the exact values.\<close>

fun num_ge :: "pyfloat \<Rightarrow> pynum \<Rightarrow> bool" where
  "num_ge PosInf y = True"
| "num_ge (Fin m e) y = (case num_val y of None \<Rightarrow> False | Some v \<Rightarrow> v \<le> float_val m e)"


section \<open>The filter engine (\<open>browser_executor.py\<close>)\<close>

definition remote_terms :: "string list" where
  "remote_terms = [''remote'', ''work from home'', ''wfh'', ''virtual'', ''telecommute'',
     ''anywhere'']"

text \<open>\<open>BrowserExecutor._is_remote_job\<close>\<close>

fun remote_loop :: "job \<Rightarrow> string list \<Rightarrow> error + bool" where
  "remote_loop job [] = Inr False"
| "remote_loop job (field # fields) =
     (case map_of job field of
        None \<Rightarrow> remote_loop job fields
      | Some v \<Rightarrow>
          if truthy v then
            (case lower_of v of Inl e \<Rightarrow> Inl e
             | Inr text \<Rightarrow> if any_in remote_terms text then Inr True
                           else remote_loop job fields)
          else remote_loop job fields)"

definition is_remote_job :: "job \<Rightarrow> error + bool" where
  "is_remote_job job = remote_loop job [''title'', ''description'', ''location'']"

text \<open>\<open>BrowserExecutor._is_recent_job\<close>\<close>

definition date_field :: "job \<Rightarrow> string option" where
  "date_field job =
     find (\<lambda>f. map_of job f \<noteq> None) [''date_posted'', ''posted_date'', ''date'']"

definition time_match :: "string \<Rightarrow> groups option" where
  "time_match date_text = search time_re date_text"

definition recent_text :: "string \<Rightarrow> int \<Rightarrow> error + bool" where
  "recent_text date_text hours =
     (if py_in ''just now'' date_text \<or> py_in ''today'' date_text then Inr True
      else if py_in ''yesterday'' date_text \<and> 24 \<le> hours then Inr True
      else if py_in ''this week'' date_text \<and> 168 \<le> hours then Inr True
      else if py_in ''this month'' date_text \<and> 720 \<le> hours then Inr True
      else case time_match date_text of
        None \<Rightarrow> Inr True
      | Some g \<Rightarrow>
          (case py_int (group_str g 1) of Inl e \<Rightarrow> Inl e
           | Inr val \<Rightarrow>
               (let unit = group_str g 2 in
                if unit = ''hour'' \<and> val \<le> hours then Inr True
                else if unit = ''day'' \<and> val * 24 \<le> hours then Inr True
                else if unit = ''week'' \<and> val * 168 \<le> hours then Inr True
                else if unit = ''month'' \<and> val * 720 \<le> hours then Inr True
                else Inr False)))"

definition is_recent_job :: "job \<Rightarrow> int \<Rightarrow> error + bool" where
  "is_recent_job job hours =
     (case date_field job of
        None \<Rightarrow> Inr True
      | Some f \<Rightarrow>
          if \<not> truthy (dict_get job f PNone) then Inr True
          else (case lower_of (dict_get job f PNone) of Inl e \<Rightarrow> Inl e
                | Inr date_text \<Rightarrow> recent_text date_text hours))"


text \<open>
  \<open>BrowserExecutor._matches_experience\<close>: every path that returns, returns \<open>True\<close>.
\<close>

definition level_terms :: "string \<Rightarrow> string list" where
  "level_terms level =
     (if level = ''entry'' then [''entry'', ''junior'', ''fresher'', ''trainee'', ''0-1'', ''0-2'']
      else if level = ''mid'' then [''mid'', ''intermediate'', ''associate'', ''2-5'', ''3-5'']
      else if level = ''senior'' then [''senior'', ''lead'', ''manager'', ''principal'', ''5+'', ''7+'']
      else [])"

definition text_terms :: "string \<Rightarrow> string list" where
  "text_terms level =
     (if level = ''entry'' then [''entry'', ''junior'', ''fresher'', ''trainee'', ''graduate'',
        ''0-1'', ''0-2'']
      else if level = ''mid'' then [''mid'', ''intermediate'', ''associate'', ''2-5'', ''3-5'']
      else if level = ''senior'' then [''senior'', ''lead'', ''manager'', ''principal'', ''head'',
        ''5+'', ''7+'']
      else [])"

fun experience_loop :: "job \<Rightarrow> string \<Rightarrow> string list \<Rightarrow> error + bool" where
  "experience_loop job level [] = Inr True"
| "experience_loop job level (field # fields) =
     (case map_of job field of
        None \<Rightarrow> experience_loop job level fields
      | Some v \<Rightarrow>
          if truthy v then
            (case lower_of v of Inl e \<Rightarrow> Inl e
             | Inr text \<Rightarrow> if any_in (text_terms level) text then Inr True
                           else experience_loop job level fields)
          else experience_loop job level fields)"

definition matches_experience :: "job \<Rightarrow> string \<Rightarrow> error + bool" where
  "matches_experience job level =
     (let rest = experience_loop job level [''title'', ''description'', ''experience''] in
      case map_of job ''experience_level'' of
        None \<Rightarrow> rest
      | Some v \<Rightarrow>
          if truthy v then
            (case lower_of v of Inl e \<Rightarrow> Inl e
             | Inr exp_level \<Rightarrow> if any_in (level_terms level) exp_level then Inr True else rest)
          else rest)"

text \<open>\<open>BrowserExecutor._meets_salary_requirement\<close>\<close>

definition salary_field :: "job \<Rightarrow> string option" where
  "salary_field job = find (\<lambda>f. map_of job f \<noteq> None) [''salary'', ''salary_range'']"

definition salary_text_ok :: "string \<Rightarrow> pynum \<Rightarrow> bool" where
  "salary_text_ok salary_text min_lakhs =
     (case search salary_re salary_text of
        None \<Rightarrow> True
      | Some g \<Rightarrow>
          (let min_value = py_float (group_str g 1);
               unit = py_lower (group_str g 3);
               min_value = (if unit \<in> set [''k'', ''thousand''] then fdiv min_value 100
                            else if unit \<in> set [''cr'', ''crore''] then fmul min_value 100
                            else min_value)
           in num_ge min_value min_lakhs))"

definition meets_salary_requirement :: "job \<Rightarrow> pynum \<Rightarrow> error + bool" where
  "meets_salary_requirement job min_lakhs =
     (case salary_field job of
        None \<Rightarrow> Inr True
      | Some f \<Rightarrow>
          if \<not> truthy (dict_get job f PNone) then Inr True
          else (case lower_of (dict_get job f PNone) of Inl e \<Rightarrow> Inl e
                | Inr salary_text \<Rightarrow> Inr (salary_text_ok salary_text min_lakhs)))"

text \<open>
  \<open>BrowserExecutor._apply_filters_to_jobs\<close>. One turn of its loop is \<open>apply_filter\<close>:
  the four category tests in the source's order, each narrowing the list the previous one
  left. \<open>salary_floor\<close> is the threshold of lines 352 to 360: \<open>None\<close> where the phrase
  has no salary floor.
\<close>

definition recency_hours :: "string \<Rightarrow> int option" where
  "recency_hours filter_lower =
     (if py_in ''last 24 hours'' filter_lower \<or> py_in ''today'' filter_lower then Some 24
      else if py_in ''last 3 days'' filter_lower then Some 72
      else if py_in ''last 7 days'' filter_lower \<or> py_in ''week'' filter_lower then Some 168
      else if py_in ''last 30 days'' filter_lower \<or> py_in ''month'' filter_lower then Some 720
      else None)"

definition experience_level :: "string \<Rightarrow> string option" where
  "experience_level filter_lower =
     (if py_in ''entry'' filter_lower \<or> py_in ''junior'' filter_lower then Some ''entry''
      else if py_in ''mid'' filter_lower \<or> py_in ''intermediate'' filter_lower then Some ''mid''
      else if py_in ''senior'' filter_lower \<or> py_in ''experienced'' filter_lower
        then Some ''senior''
      else None)"

definition salary_floor :: "string \<Rightarrow> (error + pynum) option" where
  "salary_floor filter_lower =
     (case search floor_re filter_lower of
        None \<Rightarrow> None
      | Some g \<Rightarrow> Some
          (case py_int (group_str g 3) of Inl e \<Rightarrow> Inl e
           | Inr amount \<Rightarrow>
               (let unit = py_lower (group_str g 4) in
                if unit \<in> set [''k'', ''thousand''] then int_truediv (nat amount) 100
                else if unit \<in> set [''cr'', ''crore''] then Inr (NInt (amount * 100))
                else Inr (NInt amount))))"

definition apply_filter :: "string \<Rightarrow> job list \<Rightarrow> error + job list" where
  "apply_filter filter_item filtered_jobs =
     (let filter_lower = py_lower filter_item in
      bind_e (if any_in [''remote'', ''work from home'', ''wfh''] filter_lower
              then filter_e is_remote_job filtered_jobs else Inr filtered_jobs)
      (\<lambda>jobs1.
      bind_e (case recency_hours filter_lower of
                Some hours \<Rightarrow> filter_e (\<lambda>job. is_recent_job job hours) jobs1
              | None \<Rightarrow> Inr jobs1)
      (\<lambda>jobs2.
      bind_e (case experience_level filter_lower of
                Some level \<Rightarrow> filter_e (\<lambda>job. matches_experience job level) jobs2
              | None \<Rightarrow> Inr jobs2)
      (\<lambda>jobs3.
        case salary_floor filter_lower of
          None \<Rightarrow> Inr jobs3
        | Some (Inl e) \<Rightarrow> Inl e
        | Some (Inr amount) \<Rightarrow>
            filter_e (\<lambda>job. meets_salary_requirement job amount) jobs3))))"

text \<open>
  The loop over \<open>plan.get('filters', [])\<close>. A falsy item is skipped; an item that is not
  a string has no \<open>lower\<close>. Iterating a string yields its characters, a dictionary its
  keys; \<open>None\<close>, a number or a boolean cannot be iterated.
\<close>

fun filter_loop :: "pyval list \<Rightarrow> job list \<Rightarrow> error + job list" where
  "filter_loop [] filtered_jobs = Inr filtered_jobs"
| "filter_loop (filter_item # rest) filtered_jobs =
     (if \<not> truthy filter_item then filter_loop rest filtered_jobs
      else case filter_item of
        PStr s \<Rightarrow> bind_e (apply_filter s filtered_jobs) (filter_loop rest)
      | _ \<Rightarrow> Inl AttributeError)"

definition py_iter :: "pyval \<Rightarrow> error + pyval list" where
  "py_iter v = (case v of
       PList xs \<Rightarrow> Inr xs
     | PStr s \<Rightarrow> Inr (map (\<lambda>c. PStr [c]) s)
     | PDict kvs \<Rightarrow> Inr (map (\<lambda>kv. PStr (fst kv)) kvs)
     | _ \<Rightarrow> Inl TypeError)"

definition apply_filters_to_jobs :: "job list \<Rightarrow> (string \<times> pyval) list \<Rightarrow> error + job list" where
  "apply_filters_to_jobs jobs plan =
     (if jobs = [] \<or> plan = [] then Inr jobs
      else let filters = dict_get plan ''filters'' (PList []) in
        if \<not> truthy filters then Inr jobs
        else bind_e (py_iter filters) (\<lambda>items. filter_loop items jobs))"


section \<open>Structured data (\<open>job_extractor.py\<close>)\<close>

text \<open>
  Three things belong to the interpreter's library and are parameters of the model:
  \<open>netloc\<close> is \<open>urlparse(url).netloc\<close>, \<open>join_site site href\<close> is \<open>urljoin\<close> of the
  scheme and host of \<open>site\<close> with \<open>href\<close> (lines 194 to 196), and \<open>repr_of\<close> is the text
  of a list or dictionary inside an f-string. Each may be any function.
\<close>

record stdlib =
  netloc :: "string \<Rightarrow> error + string"
  join_site :: "string \<Rightarrow> string \<Rightarrow> error + string"
  repr_of :: "pyval \<Rightarrow> string"

fun show_nat :: "nat \<Rightarrow> string" where
  "show_nat n = (if n < 10 then [''0123456789'' ! n]
     else show_nat (n div 10) @ [''0123456789'' ! (n mod 10)])"

declare show_nat.simps [simp del]

definition show_int :: "int \<Rightarrow> string" where
  "show_int i = (if i < 0 then CHR ''-'' # show_nat (nat (- i)) else show_nat (nat i))"

text \<open>The text of \<open>{v}\<close> in an f-string.\<close>

definition py_str :: "stdlib \<Rightarrow> pyval \<Rightarrow> string" where
  "py_str lib v = (case v of
       PStr s \<Rightarrow> s
     | PInt i \<Rightarrow> show_int i
     | PBool b \<Rightarrow> (if b then ''True'' else ''False'')
     | PNone \<Rightarrow> ''None''
     | _ \<Rightarrow> repr_of lib v)"

text \<open>\<open>x.get(k, default)\<close> on an arbitrary object: only a dictionary has \<open>get\<close>.\<close>

definition py_get :: "pyval \<Rightarrow> string \<Rightarrow> pyval \<Rightarrow> error + pyval" where
  "py_get x k dflt = (case x of PDict d \<Rightarrow> Inr (dict_get d k dflt) | _ \<Rightarrow> Inl AttributeError)"

text \<open>\<open>d[k] = v\<close>: an existing key keeps its place, a new one goes last.\<close>

fun dict_set :: "(string \<times> pyval) list \<Rightarrow> string \<Rightarrow> pyval \<Rightarrow> (string \<times> pyval) list" where
  "dict_set [] k v = [(k, v)]"
| "dict_set ((k', v') # d) k v = (if k' = k then (k, v) # d else (k', v') # dict_set d k v)"

text \<open>\<open>JobExtractor.extract_domain\<close>, for a string argument.\<close>

definition extract_domain :: "stdlib \<Rightarrow> string \<Rightarrow> string" where
  "extract_domain lib url =
     (if url = [] then ''Unknown''
      else if \<not> startswith url ''http'' then
        (if py_in ''/'' url then takeWhile (\<lambda>c. c \<noteq> CHR ''/'') url else url)
      else case netloc lib url of
        Inl e \<Rightarrow> ''Unknown''
      | Inr domain \<Rightarrow> if startswith domain ''www.'' then drop 4 domain else domain)"

text \<open>
  \<open>JobExtractor.extract_job_from_jsonld\<close>. The body runs inside \<open>try\<close>; an exception
  anywhere gives \<open>None\<close>. The steps are the source's, in its order.
\<close>

definition jsonld_basic :: "(string \<times> pyval) list \<Rightarrow> error + job" where
  "jsonld_basic data =
     bind_e (py_get (dict_get data ''hiringOrganization'' (PDict [])) ''name'' (PStr ''''))
       (\<lambda>company. Inr [(''title'', dict_get data ''title'' (PStr '''')),
          (''company'', company),
          (''description'', dict_get data ''description'' (PStr ''''))])"

definition locality :: "pyval \<Rightarrow> error + pyval" where
  "locality loc = bind_e (py_get loc ''address'' (PDict []))
     (\<lambda>address. py_get address ''addressLocality'' (PStr ''''))"

definition jsonld_location :: "(string \<times> pyval) list \<Rightarrow> job \<Rightarrow> error + job" where
  "jsonld_location data job =
     (case map_of data ''jobLocation'' of
        None \<Rightarrow> Inr job
      | Some (PDict d) \<Rightarrow>
          bind_e (locality (PDict d)) (\<lambda>l. Inr (dict_set job ''location'' l))
      | Some (PList (x # xs)) \<Rightarrow>
          bind_e (locality x) (\<lambda>l. Inr (dict_set job ''location'' l))
      | Some _ \<Rightarrow> Inr job)"

definition jsonld_date_url :: "(string \<times> pyval) list \<Rightarrow> job \<Rightarrow> job" where
  "jsonld_date_url data job =
     (let job = (case map_of data ''datePosted'' of None \<Rightarrow> job
                 | Some v \<Rightarrow> dict_set job ''date_posted'' v)
      in case map_of data ''url'' of None \<Rightarrow> job | Some v \<Rightarrow> dict_set job ''job_url'' v)"

definition jsonld_salary :: "stdlib \<Rightarrow> (string \<times> pyval) list \<Rightarrow> job \<Rightarrow> job" where
  "jsonld_salary lib data job =
     (case map_of data ''baseSalary'' of
        Some (PDict salary_data) \<Rightarrow>
          (case dict_get salary_data ''value'' (PDict []) of
             PDict val \<Rightarrow>
               (let min_value = dict_get val ''minValue'' (PStr '''');
                    max_value = dict_get val ''maxValue'' (PStr '''');
                    unit = dict_get val ''unitText'' (PStr '''');
                    currency = dict_get salary_data ''currency'' (PStr '''')
                in if truthy min_value \<and> truthy max_value then
                     dict_set job ''salary'' (PStr (py_str lib currency @ py_str lib min_value
                       @ ''-'' @ py_str lib currency @ py_str lib max_value @ '' ''
                       @ py_str lib unit))
                   else if truthy min_value then
                     dict_set job ''salary'' (PStr (py_str lib currency @ py_str lib min_value
                       @ ''+ '' @ py_str lib unit))
                   else job)
           | _ \<Rightarrow> job)
      | _ \<Rightarrow> job)"

text \<open>The acceptance test of lines 208, 321 and 413: a title and one other main field.\<close>

definition has_title_and_other :: "job \<Rightarrow> bool" where
  "has_title_and_other job =
     (truthy (dict_get job ''title'' PNone) \<and>
      (truthy (dict_get job ''company'' PNone) \<or> truthy (dict_get job ''location'' PNone) \<or>
       truthy (dict_get job ''job_url'' PNone)))"

definition source_of :: "stdlib \<Rightarrow> string \<Rightarrow> pyval" where
  "source_of lib site = PStr (if site \<noteq> [] then extract_domain lib site else ''Unknown'')"

definition extract_job_from_jsonld :: "stdlib \<Rightarrow> (string \<times> pyval) list \<Rightarrow> string \<Rightarrow> job option" where
  "extract_job_from_jsonld lib data site =
     (case bind_e (jsonld_basic data) (jsonld_location data) of
        Inl e \<Rightarrow> None
      | Inr job \<Rightarrow>
          (let job = jsonld_salary lib data (jsonld_date_url data job);
               job = dict_set job ''source'' (source_of lib site)
           in if has_title_and_other job then Some job else None))"

text \<open>
  \<open>JobExtractor.extract_structured_data\<close>. A script tag is given by what
  \<open>json.loads(script.string)\<close> returns; \<open>None\<close> for a tag without a string or with text that
  does not decode, which the loop skips.
\<close>

definition is_job_posting :: "pyval \<Rightarrow> bool" where
  "is_job_posting item = (case item of
       PDict d \<Rightarrow> dict_get d ''@type'' PNone = PStr ''JobPosting''
     | _ \<Rightarrow> False)"

definition posting_jobs :: "stdlib \<Rightarrow> string \<Rightarrow> pyval \<Rightarrow> job list" where
  "posting_jobs lib site item =
     (case item of
        PDict d \<Rightarrow>
          (if is_job_posting item then
             (case extract_job_from_jsonld lib d site of None \<Rightarrow> [] | Some job \<Rightarrow> [job])
           else [])
      | _ \<Rightarrow> [])"

definition script_jobs :: "stdlib \<Rightarrow> string \<Rightarrow> pyval option \<Rightarrow> job list" where
  "script_jobs lib site script =
     (case script of
        None \<Rightarrow> []
      | Some (PDict d) \<Rightarrow> posting_jobs lib site (PDict d)
      | Some (PList items) \<Rightarrow> concat (map (posting_jobs lib site) items)
      | Some _ \<Rightarrow> [])"

definition extract_structured_data :: "stdlib \<Rightarrow> pyval option list \<Rightarrow> string \<Rightarrow> job list" where
  "extract_structured_data lib scripts site = concat (map (script_jobs lib site) scripts)"


section \<open>The static sample tier (\<open>sample_jobs.py\<close>)\<close>

text \<open>
  The sample records are dictionaries of strings. \<open>get_sample_jobs\<close> reads the module's
  list \<open>SAMPLE_JOBS\<close>; \<open>get_sample_jobs_from\<close> is the same function of the list it
  reads, and its steps are named.
\<close>

type_synonym sample = "(string \<times> string) list"

definition get_str :: "sample \<Rightarrow> string \<Rightarrow> string \<Rightarrow> string" where
  "get_str d k dflt = (case map_of d k of None \<Rightarrow> dflt | Some v \<Rightarrow> v)"

text \<open>\<open>s.split()\<close>: the maximal runs of characters that are not white space.\<close>

fun split_acc :: "string \<Rightarrow> string \<Rightarrow> string list" where
  "split_acc cur [] = (if cur = [] then [] else [rev cur])"
| "split_acc cur (c # cs) =
     (if is_space c then (if cur = [] then split_acc [] cs else rev cur # split_acc [] cs)
      else split_acc (c # cur) cs)"

definition py_split :: "string \<Rightarrow> string list" where
  "py_split s = split_acc [] s"

text \<open>\<open>xs[:n]\<close> for an integer \<open>n\<close>: a negative \<open>n\<close> counts from the end.\<close>

definition slice_to :: "int \<Rightarrow> 'a list \<Rightarrow> 'a list" where
  "slice_to n xs = (if 0 \<le> n then take (nat n) xs else take (nat (int (length xs) + n)) xs)"

definition site_key :: "string \<Rightarrow> string" where
  "site_key site =
     (if py_in ''foundit'' (py_lower site) then ''foundit.in''
      else if py_in ''indeed'' (py_lower site) then ''indeed.com''
      else if py_in ''naukri'' (py_lower site) then ''naukri.com''
      else [])"

definition by_site :: "sample list \<Rightarrow> string \<Rightarrow> sample list" where
  "by_site all_jobs site =
     (if site \<noteq> [] \<and> py_lower site \<noteq> ''any'' \<and> site_key site \<noteq> [] then
        filter (\<lambda>job. py_lower (get_str job ''source'' []) = py_lower (site_key site)) all_jobs
      else all_jobs)"

definition matches_terms :: "string list \<Rightarrow> sample \<Rightarrow> bool" where
  "matches_terms search_terms job =
     (list_all (\<lambda>term. py_in term (py_lower (get_str job ''title'' []))) search_terms \<or>
      (map_of job ''description'' \<noteq> None \<and>
       list_all (\<lambda>term. py_in term (py_lower (get_str job ''description'' []))) search_terms))"

definition by_search_term :: "sample list \<Rightarrow> string \<Rightarrow> sample list" where
  "by_search_term all_jobs search_term =
     (if search_term \<noteq> [] then
        (let filtered_jobs = filter (matches_terms (py_split (py_lower search_term))) all_jobs
         in if filtered_jobs \<noteq> [] then filtered_jobs else all_jobs)
      else all_jobs)"

definition in_location :: "string \<Rightarrow> sample \<Rightarrow> bool" where
  "in_location location job = py_in (py_lower location) (py_lower (get_str job ''location'' []))"

definition by_location :: "sample list \<Rightarrow> string \<Rightarrow> sample list" where
  "by_location all_jobs location =
     (if location \<noteq> [] then
        (let location_jobs = filter (in_location location) all_jobs
         in if location_jobs \<noteq> [] then location_jobs else all_jobs)
      else all_jobs)"

definition get_sample_jobs_from ::
    "sample list \<Rightarrow> string \<Rightarrow> string \<Rightarrow> string \<Rightarrow> int \<Rightarrow> sample list" where
  "get_sample_jobs_from sample_jobs search_term location site count =
     (let all_jobs = by_location (by_search_term (by_site sample_jobs site) search_term) location
      in slice_to (min count (int (length all_jobs))) all_jobs)"

definition SAMPLE_JOBS :: "sample list" where
  "SAMPLE_JOBS = [
    [(''title'', ''Senior Software Engineer - Python''),
     (''company'', ''TCS''),
     (''location'', ''Bangalore, Karnataka''),
     (''date'', ''Posted 3 days ago''),
     (''link'', ''https://www.foundit.in/job/senior-software-engineer-python-tcs-bangalore-5-to-8-years-12345''),
     (''source'', ''foundit.in''),
     (''description'', ''We are looking for a Senior Software Engineer with strong Python skills to join our development team. You will be responsible for designing, implementing, and maintaining Python applications.'')],
    [(''title'', ''Full Stack Developer''),
     (''company'', ''Infosys''),
     (''location'', ''Hyderabad, Telangana''),
     (''date'', ''Posted 5 days ago''),
     (''link'', ''https://www.foundit.in/job/full-stack-developer-infosys-hyderabad-3-to-6-years-23456''),
     (''source'', ''foundit.in''),
     (''description'', ''Seeking Full Stack Developer with experience in React.js and Node.js to develop responsive web applications and RESTful APIs.'')],
    [(''title'', ''Data Scientist''),
     (''company'', ''Amazon''),
     (''location'', ''Bangalore, Karnataka''),
     (''date'', ''Posted 2 days ago''),
     (''link'', ''https://www.foundit.in/job/data-scientist-amazon-bangalore-4-to-8-years-34567''),
     (''source'', ''foundit.in''),
     (''description'', ''Join our Data Science team to develop scalable solutions for complex business problems using machine learning and statistical modeling.'')],
    [(''title'', ''DevOps Engineer''),
     (''company'', ''Microsoft''),
     (''location'', ''Pune, Maharashtra''),
     (''date'', ''Posted yesterday''),
     (''link'', ''https://www.foundit.in/job/devops-engineer-microsoft-pune-3-to-5-years-45678''),
     (''source'', ''foundit.in''),
     (''description'', ''Looking for a DevOps Engineer to help build and maintain our CI/CD pipelines, infrastructure automation, and cloud platforms.'')],
    [(''title'', ''Frontend Developer''),
     (''company'', ''Wipro''),
     (''location'', ''Chennai, Tamil Nadu''),
     (''date'', ''Posted 4 days ago''),
     (''link'', ''https://www.foundit.in/job/frontend-developer-wipro-chennai-2-to-4-years-56789''),
     (''source'', ''foundit.in''),
     (''description'', ''Experienced Frontend Developer needed to create responsive user interfaces with modern JavaScript frameworks like React or Angular.'')],
    [(''title'', ''Java Developer''),
     (''company'', ''IBM''),
     (''location'', ''Gurgaon, Haryana''),
     (''date'', ''Posted 1 week ago''),
     (''link'', ''https://www.naukri.com/job-listings-java-developer-ibm-gurgaon-3-to-6-years-67890''),
     (''source'', ''naukri.com''),
     (''description'', ''Java Developer with expertise in Spring Boot and microservices architecture for enterprise application development.'')],
    [(''title'', ''Machine Learning Engineer''),
     (''company'', ''Google''),
     (''location'', ''Hyderabad, Telangana''),
     (''date'', ''Posted 3 days ago''),
     (''link'', ''https://www.naukri.com/job-listings-machine-learning-engineer-google-hyderabad-5-to-9-years-78901''),
     (''source'', ''naukri.com''),
     (''description'', ''Machine Learning Engineer to develop AI solutions and work with large-scale data processing and model training pipelines.'')],
    [(''title'', ''Backend Developer - Node.js''),
     (''company'', ''Flipkart''),
     (''location'', ''Bangalore, Karnataka''),
     (''date'', ''Posted 6 days ago''),
     (''link'', ''https://www.naukri.com/job-listings-backend-developer-node-js-flipkart-bangalore-4-to-7-years-89012''),
     (''source'', ''naukri.com''),
     (''description'', ''Backend Developer with Node.js experience to build scalable APIs and server-side applications for our e-commerce platform.'')],
    [(''title'', ''iOS Developer''),
     (''company'', ''Paytm''),
     (''location'', ''Noida, Uttar Pradesh''),
     (''date'', ''Posted 2 days ago''),
     (''link'', ''https://www.naukri.com/job-listings-ios-developer-paytm-noida-3-to-5-years-90123''),
     (''source'', ''naukri.com''),
     (''description'', ''iOS Developer with Swift programming experience to develop and maintain our financial services mobile applications.'')],
    [(''title'', ''Cloud Solutions Architect''),
     (''company'', ''Oracle''),
     (''location'', ''Bangalore, Karnataka''),
     (''date'', ''Posted 5 days ago''),
     (''link'', ''https://www.naukri.com/job-listings-cloud-solutions-architect-oracle-bangalore-8-to-12-years-01234''),
     (''source'', ''naukri.com''),
     (''description'', ''Cloud Solutions Architect to design and implement scalable cloud infrastructure and lead technical discussions with clients.'')],
    [(''title'', ''Digital Marketing Manager''),
     (''company'', ''Accenture''),
     (''location'', ''Mumbai, Maharashtra''),
     (''date'', ''Posted 3 days ago''),
     (''link'', ''https://www.indeed.com/viewjob?jk=abcdef1234''),
     (''source'', ''indeed.com''),
     (''description'', ''Digital Marketing Manager needed to develop and implement marketing strategies across digital channels including SEO, PPC, and social media.'')],
    [(''title'', ''HR Business Partner''),
     (''company'', ''Deloitte''),
     (''location'', ''Bangalore, Karnataka''),
     (''date'', ''Posted 1 week ago''),
     (''link'', ''https://www.indeed.com/viewjob?jk=bcdef12345''),
     (''source'', ''indeed.com''),
     (''description'', ''HR Business Partner to collaborate with leadership and provide strategic HR support including talent management and employee relations.'')],
    [(''title'', ''Finance Analyst''),
     (''company'', ''KPMG''),
     (''location'', ''Gurgaon, Haryana''),
     (''date'', ''Posted 4 days ago''),
     (''link'', ''https://www.indeed.com/viewjob?jk=cdef123456''),
     (''source'', ''indeed.com''),
     (''description'', ''Finance Analyst required for financial reporting, budgeting, forecasting, and business analysis to support decision-making.'')],
    [(''title'', ''Operations Manager''),
     (''company'', ''Amazon''),
     (''location'', ''Chennai, Tamil Nadu''),
     (''date'', ''Posted 2 days ago''),
     (''link'', ''https://www.indeed.com/viewjob?jk=def1234567''),
     (''source'', ''indeed.com''),
     (''description'', ''Operations Manager to oversee daily operations, optimize processes, and ensure high performance standards in our fulfillment center.'')],
    [(''title'', ''Customer Success Manager''),
     (''company'', ''Salesforce''),
     (''location'', ''Hyderabad, Telangana''),
     (''date'', ''Posted 3 days ago''),
     (''link'', ''https://www.indeed.com/viewjob?jk=ef12345678''),
     (''source'', ''indeed.com''),
     (''description'', ''Customer Success Manager to build relationships with enterprise clients, understand their needs, and ensure they derive maximum value from our solutions.'')],
    [(''title'', ''Remote React.js Developer''),
     (''company'', ''Upwork''),
     (''location'', ''Remote''),
     (''date'', ''Posted 1 day ago''),
     (''link'', ''https://www.foundit.in/job/remote-reactjs-developer-upwork-remote-3-to-5-years-54321''),
     (''source'', ''foundit.in''),
     (''description'', ''Looking for a React.js Developer who can work remotely on front-end development projects with modern JavaScript frameworks.'')],
    [(''title'', ''Remote Content Writer''),
     (''company'', ''ContentMart''),
     (''location'', ''Remote''),
     (''date'', ''Posted 2 days ago''),
     (''link'', ''https://www.naukri.com/job-listings-remote-content-writer-contentmart-work-from-home-2-to-4-years-65432''),
     (''source'', ''naukri.com''),
     (''description'', ''Remote Content Writer to create engaging content for blogs, websites, and social media platforms across various industries.'')],
    [(''title'', ''Remote Project Manager''),
     (''company'', ''IBM''),
     (''location'', ''Remote, India''),
     (''date'', ''Posted 3 days ago''),
     (''link'', ''https://www.indeed.com/viewjob?jk=f123456789''),
     (''source'', ''indeed.com''),
     (''description'', ''Remote Project Manager to lead distributed teams, manage project lifecycles, and ensure timely delivery of IT solutions.'')],
    [(''title'', ''Remote UX/UI Designer''),
     (''company'', ''Accenture''),
     (''location'', ''Remote''),
     (''date'', ''Posted 2 days ago''),
     (''link'', ''https://www.indeed.com/viewjob?jk=1234567890a''),
     (''source'', ''indeed.com''),
     (''description'', ''Remote UX/UI Designer to create intuitive user experiences and visually appealing interfaces for web and mobile applications.'')],
    [(''title'', ''Remote Data Analyst''),
     (''company'', ''TCS''),
     (''location'', ''Remote, India''),
     (''date'', ''Posted 4 days ago''),
     (''link'', ''https://www.foundit.in/job/remote-data-analyst-tcs-remote-2-to-4-years-76543''),
     (''source'', ''foundit.in''),
     (''description'', ''Remote Data Analyst to extract insights from data, create reports, and support business decision-making processes.'')]]"

definition get_sample_jobs :: "string \<Rightarrow> string \<Rightarrow> string \<Rightarrow> int \<Rightarrow> sample list" where
  "get_sample_jobs search_term location site count =
     get_sample_jobs_from SAMPLE_JOBS search_term location site count"


section \<open>The lightweight tier (\<open>ultra_light_scraper.py\<close>)\<close>

text \<open>
  \<open>UltraLightScraper._clean_text\<close>: \<open>re.sub(r'\s+', ' ', text).strip()\<close>, the empty text
  being returned as it is.
\<close>

function sub_spaces :: "string \<Rightarrow> string" where
  "sub_spaces [] = []"
| "sub_spaces (c # cs) =
     (if is_space c then CHR '' '' # sub_spaces (dropWhile is_space cs) else c # sub_spaces cs)"
  by pat_completeness auto

termination sub_spaces
  by (relation "measure length") (auto simp: le_imp_less_Suc length_dropWhile_le)

definition py_strip :: "string \<Rightarrow> string" where
  "py_strip s = rev (dropWhile is_space (rev (dropWhile is_space s)))"

definition clean_text :: "string \<Rightarrow> string" where
  "clean_text text = (if text = [] then [] else py_strip (sub_spaces text))"

text \<open>
  A parsed page is given by what the scraper asks of it: the decoded \<open>application/ld+json\<close>
  scripts (\<open>None\<close> for a tag without a string or with text that does not decode),
  \<open>soup.select(selector)\<close> for each selector, and the elements of the generic search of
  lines 252 to 254. A card is given by the text of the first element under it that matches
  the title, the company and the location selector (\<open>None\<close> when \<open>select_one\<close> finds
  nothing); an element of the generic search by the text of its first heading and the texts of
  its paragraphs, spans and divisions.
\<close>

record card =
  title_elem :: "string option"
  company_elem :: "string option"
  location_elem :: "string option"

record element =
  heading :: "string option"
  texts :: "string list"

record soup =
  scripts :: "pyval option list"
  select :: "string \<Rightarrow> card list"
  potential_job_elements :: "element list"

text \<open>
  \<open>UltraLightScraper._extract_structured_data\<close>. The record of a posting is built from
  \<open>get\<close> calls, which raise on a value that is no dictionary, and from a slice of the
  description, which raises on a truthy value that is no string. An exception leaves the
  script (lines 176 to 178): the records of the items before it stay in the list.
\<close>

definition description_preview :: "pyval \<Rightarrow> error + pyval" where
  "description_preview description =
     (if \<not> truthy description then Inr (PStr [])
      else case description of
        PStr s \<Rightarrow> Inr (PStr (take 200 s @ ''...''))
      | _ \<Rightarrow> Inl TypeError)"

definition ultra_posting :: "(string \<times> pyval) list \<Rightarrow> error + job" where
  "ultra_posting data =
     bind_e (py_get (dict_get data ''hiringOrganization'' (PDict [])) ''name'' (PStr []))
       (\<lambda>company. bind_e (locality (dict_get data ''jobLocation'' (PDict [])))
       (\<lambda>location. bind_e (description_preview (dict_get data ''description'' PNone))
       (\<lambda>description. Inr [(''title'', dict_get data ''title'' (PStr [])),
          (''company'', company),
          (''location'', location),
          (''posted_date'', dict_get data ''datePosted'' (PStr [])),
          (''source'', PStr ''Structured Data''),
          (''description'', description)])))"

fun ultra_items :: "pyval list \<Rightarrow> job list \<Rightarrow> job list" where
  "ultra_items [] jobs = jobs"
| "ultra_items (item # items) jobs =
     (case item of
        PDict d \<Rightarrow>
          (if dict_get d ''@type'' PNone = PStr ''JobPosting'' then
             (case ultra_posting d of
                Inl e \<Rightarrow> jobs
              | Inr job \<Rightarrow> ultra_items items (jobs @ [job]))
           else ultra_items items jobs)
      | _ \<Rightarrow> ultra_items items jobs)"

definition ultra_script :: "pyval option \<Rightarrow> job list \<Rightarrow> job list" where
  "ultra_script script jobs =
     (case script of
        None \<Rightarrow> jobs
      | Some (PDict d) \<Rightarrow> ultra_items [PDict d] jobs
      | Some (PList items) \<Rightarrow> ultra_items items jobs
      | Some _ \<Rightarrow> jobs)"

definition ultra_extract_structured_data :: "soup \<Rightarrow> job list" where
  "ultra_extract_structured_data page = foldl (\<lambda>jobs script. ultra_script script jobs) [] (scripts page)"

text \<open>
  \<open>UltraLightScraper._scrape_foundit\<close>, as a function of the parsed response (\<open>None\<close> when
  \<open>_make_request\<close> returns \<open>None\<close>). A loop that can return from the function yields
  \<open>Return\<close> with the value returned, or \<open>Continue\<close> with the list built so far.
\<close>

datatype flow = Return "job list" | Continue "job list"

definition card_job :: "string \<Rightarrow> card \<Rightarrow> job" where
  "card_job location c =
     (let title = (case title_elem c of Some t \<Rightarrow> clean_text t | None \<Rightarrow> ''Unknown Title'');
          company = (case company_elem c of Some t \<Rightarrow> clean_text t | None \<Rightarrow> ''Unknown Company'');
          job_location = (case location_elem c of Some t \<Rightarrow> clean_text t | None \<Rightarrow> location)
      in [(''title'', PStr title),
          (''company'', PStr company),
          (''location'', PStr job_location),
          (''posted_date'', PStr ''Recent''),
          (''source'', PStr ''Foundit.in''),
          (''description'', PStr ''View job details on Foundit.in'')])"

fun card_loop :: "string \<Rightarrow> int \<Rightarrow> card list \<Rightarrow> job list \<Rightarrow> flow" where
  "card_loop location max_jobs [] jobs = Continue jobs"
| "card_loop location max_jobs (c # cards) jobs =
     (let jobs = jobs @ [card_job location c]
      in if max_jobs \<le> int (length jobs) then Return jobs
         else card_loop location max_jobs cards jobs)"

fun selector_loop :: "soup \<Rightarrow> string \<Rightarrow> int \<Rightarrow> string list \<Rightarrow> job list \<Rightarrow> flow" where
  "selector_loop page location max_jobs [] jobs = Continue jobs"
| "selector_loop page location max_jobs (selector # selectors) jobs =
     (let job_cards = select page selector
      in case card_loop location max_jobs
                (slice_to (max_jobs - int (length jobs)) job_cards) jobs of
           Return r \<Rightarrow> Return r
         | Continue jobs \<Rightarrow> selector_loop page location max_jobs selectors jobs)"

fun generic_texts :: "string list \<Rightarrow> string \<times> string \<Rightarrow> string \<times> string" where
  "generic_texts [] (company, job_location) = (company, job_location)"
| "generic_texts (p # ps) (company, job_location) =
     (let text = clean_text p
      in if text \<noteq> [] \<and> length text < 50 then
           (if any_in [''location'', ''address'', ''remote'', ''work from''] (py_lower text)
              then generic_texts ps (company, text)
            else if any_in [''company'', ''organization'', ''employer''] (py_lower text)
              then generic_texts ps (text, job_location)
            else generic_texts ps (company, job_location))
         else generic_texts ps (company, job_location))"

definition generic_job :: "string \<Rightarrow> element \<Rightarrow> job option" where
  "generic_job location e =
     (let title = (case heading e of Some t \<Rightarrow> clean_text t | None \<Rightarrow> ''Job Opening'');
          found = generic_texts (texts e)
            (''Unknown Company'', if location \<noteq> [] then location else ''Various Locations'')
      in if title \<noteq> [] \<and> title \<noteq> ''Job Opening'' then
           Some [(''title'', PStr title),
                 (''company'', PStr (fst found)),
                 (''location'', PStr (snd found)),
                 (''posted_date'', PStr ''Recent''),
                 (''source'', PStr ''Foundit.in''),
                 (''description'', PStr ''Job details extracted using lightweight scraper'')]
         else None)"

fun generic_loop :: "string \<Rightarrow> int \<Rightarrow> element list \<Rightarrow> job list \<Rightarrow> job list" where
  "generic_loop location max_jobs [] jobs = jobs"
| "generic_loop location max_jobs (e # elements) jobs =
     (let jobs = (case generic_job location e of Some job \<Rightarrow> jobs @ [job] | None \<Rightarrow> jobs)
      in if max_jobs \<le> int (length jobs) then jobs
         else generic_loop location max_jobs elements jobs)"

definition foundit_selectors :: "string list" where
  "foundit_selectors = [''.card-apply-content'', ''.job-titles'', ''.job-tittle'', ''.card'']"

definition scrape_foundit :: "soup option \<Rightarrow> string \<Rightarrow> int \<Rightarrow> job list" where
  "scrape_foundit response location max_jobs =
     (case response of
        None \<Rightarrow> []
      | Some page \<Rightarrow>
          (let structured_jobs = ultra_extract_structured_data page;
               jobs = (if structured_jobs \<noteq> [] then slice_to max_jobs structured_jobs else [])
           in if structured_jobs \<noteq> [] \<and> max_jobs \<le> int (length jobs)
              then slice_to max_jobs jobs
              else case selector_loop page location max_jobs foundit_selectors jobs of
                     Return r \<Rightarrow> r
                   | Continue jobs \<Rightarrow>
                       if jobs = []
                       then generic_loop location max_jobs
                              (slice_to max_jobs (potential_job_elements page)) jobs
                       else jobs))"

text \<open>
  \<open>UltraLightScraper.scrape_jobs\<close>. \<open>_scrape_naukri\<close> (lines 397 to 399) has the body
  \<open>jobs = []\<close> and no \<open>return\<close>, so it returns \<open>None\<close>; the scrapers of Indeed and LinkedIn
  are given by their outcomes. Line 93 takes \<open>len(jobs)\<close>, which raises \<open>TypeError\<close> on
  \<open>None\<close>; after it \<open>jobs\<close> is returned.
\<close>

record web =
  foundit_response :: "soup option"
  scrape_indeed :: "error + job list option"
  scrape_linkedin :: "error + job list option"

definition scrape_naukri :: "job list option" where
  "scrape_naukri = None"

definition site_text :: "stdlib \<Rightarrow> pyval \<Rightarrow> string" where
  "site_text lib site =
     (case site of
        PNone \<Rightarrow> ''foundit.in''
      | PBool b \<Rightarrow> ''foundit.in''
      | PStr s \<Rightarrow> s
      | _ \<Rightarrow> py_str lib site)"

definition scrape_jobs ::
    "stdlib \<Rightarrow> web \<Rightarrow> string \<Rightarrow> pyval \<Rightarrow> int \<Rightarrow> error + job list" where
  "scrape_jobs lib w location site max_jobs =
     (let site = site_text lib site
      in bind_e
           (if py_in ''foundit'' (py_lower site) \<or> py_in ''monster'' (py_lower site)
              then Inr (Some (scrape_foundit (foundit_response w) location max_jobs))
            else if py_in ''indeed'' (py_lower site) then scrape_indeed w
            else if py_in ''naukri'' (py_lower site) then Inr scrape_naukri
            else if py_in ''linkedin'' (py_lower site) then scrape_linkedin w
            else Inr (Some (scrape_foundit (foundit_response w) location max_jobs)))
           (\<lambda>jobs. case jobs of None \<Rightarrow> Inl TypeError | Some found \<Rightarrow> Inr found))"


section \<open>The orchestrator (\<open>app.py\<close>)\<close>

text \<open>
  \<open>run_job_scraper\<close> calls five scrapers; each call returns a list of records or raises, and
  the function is modelled on these outcomes. Its result is the list of the scrapers it called,
  in the order of the calls, and the list it returns. The whole body is inside one
  \<open>try\<close>, whose handler reports the error and falls through to \<open>return jobs\<close>: at that
  moment \<open>jobs\<close> is still the empty list, of line 89 or of the scraper before.
  \<open>create_plan\<close> catches its own exceptions, and the plan only reaches the browser scraper.
\<close>

datatype tier = linkedin_scraper | ultra_scraper | browser_executor | simple_scraper | sample_data

type_synonym outcomes = "tier \<Rightarrow> error + job list"

text \<open>\<open>site and "linkedin" in site.lower()\<close>, as the test of line 114 reads it.\<close>

definition is_linkedin :: "pyval \<Rightarrow> error + bool" where
  "is_linkedin site =
     (if \<not> truthy site then Inr False
      else case site of
        PStr s \<Rightarrow> Inr (py_in ''linkedin'' (py_lower s))
      | _ \<Rightarrow> Inl AttributeError)"

definition level4 :: "outcomes \<Rightarrow> tier list \<Rightarrow> tier list \<times> job list" where
  "level4 out calls =
     (case out sample_data of
        Inl e \<Rightarrow> (calls @ [sample_data], [])
      | Inr jobs \<Rightarrow> (calls @ [sample_data], jobs))"

definition level3 :: "outcomes \<Rightarrow> tier list \<Rightarrow> tier list \<times> job list" where
  "level3 out calls =
     (case out simple_scraper of
        Inl e \<Rightarrow> (calls @ [simple_scraper], [])
      | Inr jobs \<Rightarrow>
          if jobs \<noteq> [] then (calls @ [simple_scraper], jobs)
          else level4 out (calls @ [simple_scraper]))"

definition level2 :: "outcomes \<Rightarrow> tier list \<Rightarrow> tier list \<times> job list" where
  "level2 out calls =
     (case out browser_executor of
        Inl e \<Rightarrow> (calls @ [browser_executor], [])
      | Inr jobs \<Rightarrow>
          if jobs \<noteq> [] then (calls @ [browser_executor], jobs)
          else level3 out (calls @ [browser_executor]))"

definition first_level :: "outcomes \<Rightarrow> tier list \<Rightarrow> tier list \<times> job list" where
  "first_level out calls =
     (case out ultra_scraper of
        Inl e \<Rightarrow> (calls @ [ultra_scraper], [])
      | Inr jobs \<Rightarrow>
          if jobs \<noteq> [] then (calls @ [ultra_scraper], jobs)
          else level2 out (calls @ [ultra_scraper]))"

definition run_job_scraper :: "outcomes \<Rightarrow> pyval \<Rightarrow> tier list \<times> job list" where
  "run_job_scraper out site =
     (case is_linkedin site of
        Inl e \<Rightarrow> ([], [])
      | Inr True \<Rightarrow>
          (case out linkedin_scraper of
             Inl e \<Rightarrow> ([linkedin_scraper], [])
           | Inr jobs \<Rightarrow>
               if jobs \<noteq> [] then ([linkedin_scraper], jobs)
               else first_level out [linkedin_scraper])
      | Inr False \<Rightarrow> first_level out [])"

text \<open>
  The cascade over a list of tiers: run the first; a non-empty result is returned and no later
  tier is called, an empty one passes to the next tier, an exception ends the run with the
  empty list.
\<close>

fun cascade :: "outcomes \<Rightarrow> tier list \<Rightarrow> tier list \<times> job list" where
  "cascade out [] = ([], [])"
| "cascade out (t # ts) =
     (case out t of
        Inl e \<Rightarrow> ([t], [])
      | Inr jobs \<Rightarrow>
          if jobs = [] then (case cascade out ts of (calls, r) \<Rightarrow> (t # calls, r))
          else ([t], jobs))"

definition tier_order :: "string \<Rightarrow> tier list" where
  "tier_order site =
     (if py_in ''linkedin'' (py_lower site)
      then [linkedin_scraper, ultra_scraper, browser_executor, simple_scraper, sample_data]
      else [ultra_scraper, browser_executor, simple_scraper, sample_data])"


section \<open>Auxiliary notions\<close>

text \<open>
  A pass over a list is narrowing when its result, if it returns, is the sublist of the
  elements it keeps one by one, and when a pass that can return at all returns unchanged
  every list of elements it keeps.
\<close>

definition narrowing :: "('a list \<Rightarrow> error + 'a list) \<Rightarrow> bool" where
  "narrowing f \<longleftrightarrow>
     (\<forall>xs ys. f xs = Inr ys \<longrightarrow> ys = filter (\<lambda>x. f [x] = Inr [x]) xs) \<and>
     (\<forall>xs. (\<exists>xs0 ys0. f xs0 = Inr ys0) \<longrightarrow> (\<forall>x\<in>set xs. f [x] = Inr [x]) \<longrightarrow> f xs = Inr xs)"

text \<open>
  The groups of a match are \<open>bounded N\<close> when none is longer than \<open>N\<close>; a
  continuation is \<open>good\<close> when it keeps them so on every text of at most \<open>N\<close>
  characters.
\<close>

definition bounded :: "nat \<Rightarrow> groups \<Rightarrow> bool" where
  "bounded N g \<longleftrightarrow> (\<forall>n v. g n = Some v \<longrightarrow> length v \<le> N)"

definition good :: "nat \<Rightarrow> (string \<Rightarrow> groups \<Rightarrow> groups option) \<Rightarrow> bool" where
  "good N k \<longleftrightarrow>
     (\<forall>s g r. length s \<le> N \<longrightarrow> bounded N g \<longrightarrow> k s g = Some r \<longrightarrow> bounded N r)"

text \<open>
  A record is a \<open>text_record\<close> when every value is a string. It has a
  \<open>short_date\<close> when the date text that the recency predicate reads, if it is a string, has
  at most 4300 characters; an \<open>ordinary_record\<close> is both. A filter phrase has
  \<open>no_category\<close> when none of the four category tests of the filter loop recognises it.
\<close>

definition text_record :: "job \<Rightarrow> bool" where
  "text_record job = list_all (\<lambda>kv. case snd kv of PStr s \<Rightarrow> True | _ \<Rightarrow> False) job"

definition short_date :: "job \<Rightarrow> bool" where
  "short_date job =
     (case date_field job of
        None \<Rightarrow> True
      | Some f \<Rightarrow> (case dict_get job f PNone of PStr s \<Rightarrow> length s \<le> 4300 | _ \<Rightarrow> True))"

definition ordinary_record :: "job \<Rightarrow> bool" where
  "ordinary_record job \<longleftrightarrow> text_record job \<and> short_date job"

definition no_category :: "string \<Rightarrow> bool" where
  "no_category filter_item =
     (let filter_lower = py_lower filter_item in
      \<not> any_in [''remote'', ''work from home'', ''wfh''] filter_lower \<and>
      recency_hours filter_lower = None \<and>
      experience_level filter_lower = None \<and>
      search floor_re filter_lower = None)"


section \<open>Properties of the recency predicate\<close>

lemmas re_eval = time_re_def floor_re_def salary_re_def decimal_def alts_def lit_def digits1_def
  spaces_def is_digit_def is_space_def py_int_def dec_def group_str_def py_lower_def
  lower_char_def time_match_def

lemma recent_text_unparsed: "time_match t = None \<Longrightarrow> recent_text t hours = Inr True"
  by (simp add: recent_text_def)

lemma recent_text_mono:
  assumes "recent_text t h = Inr True" and "h \<le> h'"
  shows "recent_text t h' = Inr True"
proof (cases "time_match t")
  case None
  then show ?thesis by (simp add: recent_text_unparsed)
next
  case (Some g)
  show ?thesis
  proof (cases "py_int (group_str g 1)")
    case (Inl e)
    with Some assms show ?thesis
      by (auto simp: recent_text_def split: if_splits)
  next
    case (Inr v)
    with Some assms show ?thesis
      by (auto simp: recent_text_def Let_def split: if_splits)
  qed
qed

text \<open>
  C3, as amended. A record with none of the fields \<open>date_posted\<close>, \<open>posted_date\<close>,
  \<open>date\<close>, or whose first such field holds an empty value, or a string in which the
  relative-time pattern finds nothing, is recent for every hour threshold.
\<close>

theorem recency_default_include:
  assumes "date_field job = None \<or>
    (\<exists>f. date_field job = Some f \<and>
       (\<not> truthy (dict_get job f PNone) \<or>
        (\<exists>s. dict_get job f PNone = PStr s \<and> time_match (py_lower s) = None)))"
  shows "is_recent_job job hours = Inr True"
  using assms
  by (auto simp: is_recent_job_def lower_of_def recent_text_unparsed)

theorem recency_default_include_witness:
  "date_field [(''title'', PStr ''Data Scientist'')] = None \<and>
   is_recent_job [(''title'', PStr ''Data Scientist'')] 24 = Inr True \<and>
   date_field [(''date_posted'', PStr ''''), (''date'', PStr ''9 days ago'')]
     = Some ''date_posted'' \<and>
   is_recent_job [(''date_posted'', PStr ''''), (''date'', PStr ''9 days ago'')] 24
     = Inr True \<and>
   time_match (py_lower ''Posted on 12 March'') = None \<and>
   is_recent_job [(''date'', PStr ''Posted on 12 March'')] 1 = Inr True"
proof -
  have a: "date_field [(''title'', PStr ''Data Scientist'')] = None"
    by (simp add: date_field_def)
  have b: "date_field [(''date_posted'', PStr ''''), (''date'', PStr ''9 days ago'')]
      = Some ''date_posted''"
    by (simp add: date_field_def)
  have c: "time_match (py_lower ''Posted on 12 March'') = None"
    by (simp add: re_eval)
  have "is_recent_job [(''title'', PStr ''Data Scientist'')] 24 = Inr True"
    using a by (intro recency_default_include) simp
  moreover have "is_recent_job [(''date_posted'', PStr ''''), (''date'', PStr ''9 days ago'')] 24
      = Inr True"
    using b by (intro recency_default_include) (simp add: dict_get_def)
  moreover have "is_recent_job [(''date'', PStr ''Posted on 12 March'')] 1 = Inr True"
    using c by (intro recency_default_include) (simp add: date_field_def dict_get_def)
  ultimately show ?thesis using a b c by simp
qed

text \<open>
  C3, as stated, fails on a date that is no string. \<open>extract_job_from_jsonld\<close> copies
  \<open>datePosted\<close> as it is, so a posting dated by the number 20240312 gives a record whose
  date has no \<open>lower\<close>: the recency predicate raises AttributeError at every threshold.
\<close>

theorem recency_raises_on_numeric_date:
  "(\<forall>lib site. extract_job_from_jsonld lib
       [(''@type'', PStr ''JobPosting''), (''title'', PStr ''Data Engineer''),
        (''hiringOrganization'', PDict [(''name'', PStr ''Acme Analytics'')]),
        (''datePosted'', PInt 20240312)] site
     = Some [(''title'', PStr ''Data Engineer''), (''company'', PStr ''Acme Analytics''),
         (''description'', PStr []), (''date_posted'', PInt 20240312),
         (''source'', source_of lib site)]) \<and>
   (\<forall>source hours. is_recent_job
       [(''title'', PStr ''Data Engineer''), (''company'', PStr ''Acme Analytics''),
        (''description'', PStr []), (''date_posted'', PInt 20240312), (''source'', source)] hours
     = Inl AttributeError)"
  by (simp add: extract_job_from_jsonld_def jsonld_basic_def jsonld_location_def
      jsonld_date_url_def jsonld_salary_def has_title_and_other_def py_get_def dict_get_def
      bind_e_def is_recent_job_def date_field_def lower_of_def)

text \<open>
  C9. The recency predicate is monotone in the hour threshold: a record that is recent
  within \<open>h\<close> hours is recent within every \<open>h'\<close> from \<open>h\<close> on.
\<close>

theorem recency_monotone:
  assumes "is_recent_job job h = Inr True" and "h \<le> h'"
  shows "is_recent_job job h' = Inr True"
  using assms
  by (auto simp: is_recent_job_def split: option.splits if_splits sum.splits
      dest: recent_text_mono)

theorem recency_monotone_witness:
  "is_recent_job [(''date'', PStr ''Posted 3 days ago'')] 72 = Inr True \<and> (72::int) \<le> 168 \<and>
   is_recent_job [(''date'', PStr ''Posted 3 days ago'')] 168 = Inr True"
proof -
  have a: "is_recent_job [(''date'', PStr ''Posted 3 days ago'')] 72 = Inr True"
    by (simp add: is_recent_job_def date_field_def dict_get_def lower_of_def recent_text_def
        re_eval)
  have b: "(72::int) \<le> 168" by simp
  from a b recency_monotone [OF a b] show ?thesis by simp
qed


section \<open>Salary floors\<close>

lemmas num_eval = to_double_def dbl_max_exp_def ilog2_def bits.simps round_half_even_def
  py_float_def fdiv_def fmul_def int_truediv_def float_val_def

lemma num_ge_val: "num_val a = num_val b \<Longrightarrow> num_ge x a = num_ge x b"
  by (cases x) simp_all

lemma meets_salary_val:
  "num_val a = num_val b \<Longrightarrow> meets_salary_requirement job a = meets_salary_requirement job b"
  by (simp add: meets_salary_requirement_def salary_text_ok_def Let_def num_ge_val [of a b]
      split: option.splits sum.splits)

lemma lower_15_lpa: "py_lower ''salary above 15 LPA'' = ''salary above 15 lpa''"
  by (simp add: py_lower_def lower_char_def)

lemma lower_1500k: "py_lower ''salary above 1500k'' = ''salary above 1500k''"
  by (simp add: py_lower_def lower_char_def)

lemma floor_15_lpa: "salary_floor ''salary above 15 lpa'' = Some (Inr (NInt 15))"
  by (simp add: salary_floor_def re_eval)

lemma floor_1500k:
  "salary_floor ''salary above 1500k'' = Some (Inr (NFloat (Fin 8444249301319680 (- 49))))"
  by (simp add: salary_floor_def re_eval num_eval)

lemma floor_2_crore: "salary_floor (py_lower ''salary above 2 crore'') = Some (Inr (NInt 200))"
  by (simp add: salary_floor_def re_eval)

text \<open>
  C4. The phrases "salary above 15 LPA" and "salary above 1500k" give the same salary floor,
  15 lakhs: the first as the \<open>int\<close> 15, the second as the \<open>float\<close> \<open>1500 / 100\<close>,
  whose value is 15, so the two phrases filter every job list alike. Crores are multiplied
  by 100.
\<close>

theorem salary_floor_normalised:
  "salary_floor (py_lower ''salary above 15 LPA'') = Some (Inr (NInt 15)) \<and>
   salary_floor (py_lower ''salary above 1500k'')
     = Some (Inr (NFloat (Fin 8444249301319680 (- 49)))) \<and>
   num_val (NInt 15) = Some 15 \<and>
   num_val (NFloat (Fin 8444249301319680 (- 49))) = Some 15 \<and>
   salary_floor (py_lower ''salary above 2 crore'') = Some (Inr (NInt 200)) \<and>
   (\<forall>jobs. apply_filter ''salary above 15 LPA'' jobs = apply_filter ''salary above 1500k'' jobs)"
proof -
  have v: "num_val (NInt 15) = num_val (NFloat (Fin 8444249301319680 (- 49)))"
    by (simp add: float_val_def)
  have same: "(\<lambda>job. meets_salary_requirement job (NInt 15))
      = (\<lambda>job. meets_salary_requirement job (NFloat (Fin 8444249301319680 (- 49))))"
    by (rule ext) (rule meets_salary_val [OF v])
  have a: "apply_filter ''salary above 15 LPA'' jobs
      = filter_e (\<lambda>job. meets_salary_requirement job (NInt 15)) jobs" for jobs
    unfolding apply_filter_def Let_def lower_15_lpa floor_15_lpa
    by (simp add: any_in_def recency_hours_def experience_level_def bind_e_def)
  have b: "apply_filter ''salary above 1500k'' jobs
      = filter_e (\<lambda>job. meets_salary_requirement job (NFloat (Fin 8444249301319680 (- 49)))) jobs"
    for jobs
    unfolding apply_filter_def Let_def lower_1500k floor_1500k
    by (simp add: any_in_def recency_hours_def experience_level_def bind_e_def)
  show ?thesis
    unfolding lower_15_lpa lower_1500k
    using floor_15_lpa floor_1500k floor_2_crore a b same
    by (simp add: float_val_def)
qed


lemma lower_8_lpa: "py_lower ''salary above 8 LPA'' = ''salary above 8 lpa''"
  by (simp add: py_lower_def lower_char_def)

lemma lower_20_lpa: "py_lower ''salary above 20 LPA'' = ''salary above 20 lpa''"
  by (simp add: py_lower_def lower_char_def)

lemma floor_8_lpa: "salary_floor ''salary above 8 lpa'' = Some (Inr (NInt 8))"
  by (simp add: salary_floor_def re_eval)

lemma floor_20_lpa: "salary_floor ''salary above 20 lpa'' = Some (Inr (NInt 20))"
  by (simp add: salary_floor_def re_eval)

lemma map_of_dict_set: "map_of (dict_set d k v) k' = (if k' = k then Some v else map_of d k')"
  by (induction d) auto

lemma extracted_salary:
  assumes "extract_job_from_jsonld lib data site = Some job"
    and "map_of data ''baseSalary'' = Some (PDict salary_data)"
    and "map_of salary_data ''value'' = Some (PDict val)"
    and "map_of val ''minValue'' = Some (PInt 10)"
    and "map_of val ''maxValue'' = Some (PInt 15)"
    and "map_of val ''unitText'' = Some (PStr ''LPA'')"
    and "dict_get salary_data ''currency'' (PStr []) = PStr currency"
  shows "map_of job ''salary'' = Some (PStr (currency @ ''10-'' @ currency @ ''15 LPA''))"
proof -
  from assms(1) obtain job0 where
    job: "job = dict_set (jsonld_salary lib data (jsonld_date_url data job0)) ''source''
      (source_of lib site)"
    by (auto simp: extract_job_from_jsonld_def Let_def split: sum.splits if_splits)
  have "jsonld_salary lib data j
      = dict_set j ''salary'' (PStr (currency @ ''10-'' @ currency @ ''15 LPA''))" for j
    using assms(2-7)
    by (simp add: jsonld_salary_def dict_get_def py_str_def show_int_def show_nat.simps)
  with job show ?thesis
    by (simp add: map_of_dict_set)
qed

lemma salary_text_lower_bound:
  assumes "num_val min_lakhs = Some v"
  shows "salary_text_ok (py_lower ''10-15 LPA'') min_lakhs = (v \<le> 10)"
  using assms
  by (simp add: salary_text_ok_def re_eval num_eval)

lemma meets_lower_bound:
  assumes "map_of job ''salary'' = Some (PStr ''10-15 LPA'')"
    and "num_val min_lakhs = Some v"
  shows "meets_salary_requirement job min_lakhs = Inr (v \<le> 10)"
  using assms(1) salary_text_lower_bound [OF assms(2)]
  by (simp add: meets_salary_requirement_def salary_field_def dict_get_def lower_of_def)

lemma lower_12_lpa: "py_lower ''salary above 12 LPA'' = ''salary above 12 lpa''"
  by (simp add: py_lower_def lower_char_def)

lemma floor_12_lpa: "salary_floor ''salary above 12 lpa'' = Some (Inr (NInt 12))"
  by (simp add: salary_floor_def re_eval)

lemma salary_filter_8:
  "apply_filter ''salary above 8 LPA'' jobs
     = filter_e (\<lambda>job. meets_salary_requirement job (NInt 8)) jobs"
  unfolding apply_filter_def Let_def lower_8_lpa floor_8_lpa
  by (simp add: any_in_def recency_hours_def experience_level_def bind_e_def)

lemma salary_filter_12:
  "apply_filter ''salary above 12 LPA'' jobs
     = filter_e (\<lambda>job. meets_salary_requirement job (NInt 12)) jobs"
  unfolding apply_filter_def Let_def lower_12_lpa floor_12_lpa
  by (simp add: any_in_def recency_hours_def experience_level_def bind_e_def)

lemma salary_filter_20:
  "apply_filter ''salary above 20 LPA'' jobs
     = filter_e (\<lambda>job. meets_salary_requirement job (NInt 20)) jobs"
  unfolding apply_filter_def Let_def lower_20_lpa floor_20_lpa
  by (simp add: any_in_def recency_hours_def experience_level_def bind_e_def)

lemma one_filter:
  "apply_filters_to_jobs [job] [(''filters'', PList [PStr (c # cs)])]
     = apply_filter (c # cs) [job]"
  by (cases "apply_filter (c # cs) [job]")
    (simp_all add: apply_filters_to_jobs_def dict_get_def py_iter_def bind_e_def)

text \<open>
  C7, as amended. A JobPosting with \<open>minValue\<close> 10, \<open>maxValue\<close> 15, \<open>unitText\<close> LPA
  and no currency, when the extractor accepts it, gives a record whose salary is the text
  "10-15 LPA", which contains both bounds; the salary predicate holds of the record exactly
  for the floors of at most 10, the lower bound of the range, and so the filter
  "salary above 8 LPA" keeps the record and "salary above 20 LPA" drops it.
\<close>

theorem jsonld_salary_range_scenario:
  assumes "extract_job_from_jsonld lib data site = Some job"
    and "map_of data ''baseSalary'' = Some (PDict salary_data)"
    and "map_of salary_data ''value'' = Some (PDict val)"
    and "map_of val ''minValue'' = Some (PInt 10)"
    and "map_of val ''maxValue'' = Some (PInt 15)"
    and "map_of val ''unitText'' = Some (PStr ''LPA'')"
    and "dict_get salary_data ''currency'' (PStr []) = PStr []"
  shows "map_of job ''salary'' = Some (PStr ''10-15 LPA'') \<and>
    py_in ''10'' ''10-15 LPA'' \<and> py_in ''15'' ''10-15 LPA'' \<and>
    (\<forall>min_lakhs v. num_val min_lakhs = Some v \<longrightarrow>
       meets_salary_requirement job min_lakhs = Inr (v \<le> 10)) \<and>
    apply_filters_to_jobs [job] [(''filters'', PList [PStr ''salary above 8 LPA''])]
      = Inr [job] \<and>
    apply_filters_to_jobs [job] [(''filters'', PList [PStr ''salary above 20 LPA''])]
      = Inr []"
proof -
  from extracted_salary [OF assms]
  have sal: "map_of job ''salary'' = Some (PStr ''10-15 LPA'')" by simp
  have m8: "meets_salary_requirement job (NInt 8) = Inr True"
    using meets_lower_bound [OF sal, of "NInt 8" 8] by simp
  have m20: "meets_salary_requirement job (NInt 20) = Inr False"
    using meets_lower_bound [OF sal, of "NInt 20" 20] by simp
  have f8: "apply_filters_to_jobs [job] [(''filters'', PList [PStr ''salary above 8 LPA''])]
      = Inr [job]"
    unfolding one_filter salary_filter_8 using m8 by simp
  have f20: "apply_filters_to_jobs [job] [(''filters'', PList [PStr ''salary above 20 LPA''])]
      = Inr []"
    unfolding one_filter salary_filter_20 using m20 by simp
  from sal f8 f20 show ?thesis
    by (simp add: meets_lower_bound [OF sal])
qed

theorem jsonld_salary_range_scenario_witness:
  "\<forall>lib site.
     extract_job_from_jsonld lib
       [(''@type'', PStr ''JobPosting''), (''title'', PStr ''Data Engineer''),
        (''hiringOrganization'', PDict [(''name'', PStr ''Acme Analytics'')]),
        (''baseSalary'', PDict [(''value'', PDict [(''minValue'', PInt 10),
            (''maxValue'', PInt 15), (''unitText'', PStr ''LPA'')])])] site
       = Some [(''title'', PStr ''Data Engineer''), (''company'', PStr ''Acme Analytics''),
           (''description'', PStr []), (''salary'', PStr ''10-15 LPA''),
           (''source'', source_of lib site)] \<and>
     dict_get [(''value'', PDict [(''minValue'', PInt 10), (''maxValue'', PInt 15),
         (''unitText'', PStr ''LPA'')])] ''currency'' (PStr []) = PStr [] \<and>
     meets_salary_requirement
       [(''title'', PStr ''Data Engineer''), (''company'', PStr ''Acme Analytics''),
        (''description'', PStr []), (''salary'', PStr ''10-15 LPA''),
        (''source'', source_of lib site)] (NInt 10) = Inr True \<and>
     meets_salary_requirement
       [(''title'', PStr ''Data Engineer''), (''company'', PStr ''Acme Analytics''),
        (''description'', PStr []), (''salary'', PStr ''10-15 LPA''),
        (''source'', source_of lib site)] (NInt 11) = Inr False \<and>
     apply_filters_to_jobs
       [[(''title'', PStr ''Data Engineer''), (''company'', PStr ''Acme Analytics''),
         (''description'', PStr []), (''salary'', PStr ''10-15 LPA''),
         (''source'', source_of lib site)]]
       [(''filters'', PList [PStr ''salary above 8 LPA''])]
       = Inr [[(''title'', PStr ''Data Engineer''), (''company'', PStr ''Acme Analytics''),
           (''description'', PStr []), (''salary'', PStr ''10-15 LPA''),
           (''source'', source_of lib site)]] \<and>
     apply_filters_to_jobs
       [[(''title'', PStr ''Data Engineer''), (''company'', PStr ''Acme Analytics''),
         (''description'', PStr []), (''salary'', PStr ''10-15 LPA''),
         (''source'', source_of lib site)]]
       [(''filters'', PList [PStr ''salary above 20 LPA''])]
       = Inr []"
proof (intro allI)
  fix lib :: stdlib and site :: string
  let ?posting = "[(''@type'', PStr ''JobPosting''), (''title'', PStr ''Data Engineer''),
        (''hiringOrganization'', PDict [(''name'', PStr ''Acme Analytics'')]),
        (''baseSalary'', PDict [(''value'', PDict [(''minValue'', PInt 10),
            (''maxValue'', PInt 15), (''unitText'', PStr ''LPA'')])])]"
  let ?job = "[(''title'', PStr ''Data Engineer''), (''company'', PStr ''Acme Analytics''),
           (''description'', PStr []), (''salary'', PStr ''10-15 LPA''),
           (''source'', source_of lib site)]"
  have ex: "extract_job_from_jsonld lib ?posting site = Some ?job"
    by (simp add: extract_job_from_jsonld_def jsonld_basic_def
        jsonld_location_def jsonld_date_url_def jsonld_salary_def has_title_and_other_def
        py_get_def dict_get_def bind_e_def py_str_def show_int_def show_nat.simps)
  have cur: "dict_get [(''value'', PDict [(''minValue'', PInt 10), (''maxValue'', PInt 15),
         (''unitText'', PStr ''LPA'')])] ''currency'' (PStr []) = PStr []"
    by (simp add: dict_get_def)
  from jsonld_salary_range_scenario [OF ex _ _ _ _ _ cur,
      of "[(''minValue'', PInt 10), (''maxValue'', PInt 15), (''unitText'', PStr ''LPA'')]"]
  have r: "(\<forall>min_lakhs v. num_val min_lakhs = Some v \<longrightarrow>
       meets_salary_requirement ?job min_lakhs = Inr (v \<le> 10)) \<and>
    apply_filters_to_jobs [?job] [(''filters'', PList [PStr ''salary above 8 LPA''])]
      = Inr [?job] \<and>
    apply_filters_to_jobs [?job] [(''filters'', PList [PStr ''salary above 20 LPA''])]
      = Inr []"
    by simp
  then have "meets_salary_requirement ?job (NInt 10) = Inr (of_int 10 \<le> (10::rat))"
    and "meets_salary_requirement ?job (NInt 11) = Inr (of_int 11 \<le> (10::rat))"
    by simp_all
  with ex cur r show "extract_job_from_jsonld lib ?posting site = Some ?job \<and>
     dict_get [(''value'', PDict [(''minValue'', PInt 10), (''maxValue'', PInt 15),
         (''unitText'', PStr ''LPA'')])] ''currency'' (PStr []) = PStr [] \<and>
     meets_salary_requirement ?job (NInt 10) = Inr True \<and>
     meets_salary_requirement ?job (NInt 11) = Inr False \<and>
     apply_filters_to_jobs [?job] [(''filters'', PList [PStr ''salary above 8 LPA''])]
       = Inr [?job] \<and>
     apply_filters_to_jobs [?job] [(''filters'', PList [PStr ''salary above 20 LPA''])]
       = Inr []"
    by simp
qed

text \<open>
  C7, as stated, fails where the posting names a currency: the salary text is then
  "INR10-INR15 LPA", in which the pattern of the salary predicate first matches at 15, so the
  upper bound is compared. The floor 12 passes, though it is above the lower bound and fails on
  "10-15 LPA".
\<close>

theorem jsonld_salary_currency_upper_bound:
  "(\<forall>lib site. extract_job_from_jsonld lib
       [(''@type'', PStr ''JobPosting''), (''title'', PStr ''Data Engineer''),
        (''hiringOrganization'', PDict [(''name'', PStr ''Acme Analytics'')]),
        (''baseSalary'', PDict [(''currency'', PStr ''INR''),
          (''value'', PDict [(''minValue'', PInt 10), (''maxValue'', PInt 15),
            (''unitText'', PStr ''LPA'')])])] site
     = Some [(''title'', PStr ''Data Engineer''), (''company'', PStr ''Acme Analytics''),
         (''description'', PStr []), (''salary'', PStr ''INR10-INR15 LPA''),
         (''source'', source_of lib site)]) \<and>
   (\<forall>source. meets_salary_requirement
       [(''title'', PStr ''Data Engineer''), (''company'', PStr ''Acme Analytics''),
        (''description'', PStr []), (''salary'', PStr ''INR10-INR15 LPA''),
        (''source'', source)] (NInt 12) = Inr True) \<and>
   (\<forall>source. apply_filters_to_jobs
       [[(''title'', PStr ''Data Engineer''), (''company'', PStr ''Acme Analytics''),
         (''description'', PStr []), (''salary'', PStr ''INR10-INR15 LPA''),
         (''source'', source)]]
       [(''filters'', PList [PStr ''salary above 12 LPA''])]
     = Inr [[(''title'', PStr ''Data Engineer''), (''company'', PStr ''Acme Analytics''),
         (''description'', PStr []), (''salary'', PStr ''INR10-INR15 LPA''),
         (''source'', source)]]) \<and>
   (\<forall>source. meets_salary_requirement
       [(''title'', PStr ''Data Engineer''), (''company'', PStr ''Acme Analytics''),
        (''description'', PStr []), (''salary'', PStr ''10-15 LPA''),
        (''source'', source)] (NInt 12) = Inr False)"
proof -
  have ok: "salary_text_ok (py_lower ''INR10-INR15 LPA'') (NInt 12)"
    by (simp add: salary_text_ok_def re_eval num_eval)
  have no: "\<not> salary_text_ok (py_lower ''10-15 LPA'') (NInt 12)"
    by (simp add: salary_text_ok_def re_eval num_eval)
  have m: "meets_salary_requirement
       [(''title'', PStr ''Data Engineer''), (''company'', PStr ''Acme Analytics''),
        (''description'', PStr []), (''salary'', PStr ''INR10-INR15 LPA''),
        (''source'', source)] (NInt 12) = Inr True" for source
    using ok
    by (simp add: meets_salary_requirement_def salary_field_def dict_get_def lower_of_def)
  have n: "meets_salary_requirement
       [(''title'', PStr ''Data Engineer''), (''company'', PStr ''Acme Analytics''),
        (''description'', PStr []), (''salary'', PStr ''10-15 LPA''),
        (''source'', source)] (NInt 12) = Inr False" for source
    using no
    by (simp add: meets_salary_requirement_def salary_field_def dict_get_def lower_of_def)
  have ex: "extract_job_from_jsonld lib
       [(''@type'', PStr ''JobPosting''), (''title'', PStr ''Data Engineer''),
        (''hiringOrganization'', PDict [(''name'', PStr ''Acme Analytics'')]),
        (''baseSalary'', PDict [(''currency'', PStr ''INR''),
          (''value'', PDict [(''minValue'', PInt 10), (''maxValue'', PInt 15),
            (''unitText'', PStr ''LPA'')])])] site
     = Some [(''title'', PStr ''Data Engineer''), (''company'', PStr ''Acme Analytics''),
         (''description'', PStr []), (''salary'', PStr ''INR10-INR15 LPA''),
         (''source'', source_of lib site)]" for lib site
    by (simp add: extract_job_from_jsonld_def jsonld_basic_def
        jsonld_location_def jsonld_date_url_def jsonld_salary_def has_title_and_other_def
        py_get_def dict_get_def bind_e_def py_str_def show_int_def show_nat.simps)
  show ?thesis
    unfolding one_filter salary_filter_12
    using ex m n by simp
qed


section \<open>The filter pass\<close>

lemma filter_e_Inr:
  "filter_e p xs = Inr ys \<Longrightarrow> ys = filter (\<lambda>x. p x = Inr True) xs"
proof (induction xs arbitrary: ys)
  case Nil
  then show ?case by simp
next
  case (Cons x xs)
  then show ?case
    by (auto split: sum.splits if_splits)
qed

lemma filter_e_all:
  "(\<forall>x\<in>set xs. p x = Inr True) \<Longrightarrow> filter_e p xs = Inr xs"
  by (induction xs) auto

lemma filter_e_single: "filter_e p [x] = Inr [x] \<longleftrightarrow> p x = Inr True"
  by (auto split: sum.splits)

lemma narrowing_filter_e: "narrowing (filter_e p)"
  unfolding narrowing_def filter_e_single
  by (auto dest: filter_e_Inr intro: filter_e_all)

lemma narrowing_Inr: "narrowing Inr"
  by (simp add: narrowing_def)

lemma narrowing_fail: "narrowing (\<lambda>xs. Inl e)"
  by (simp add: narrowing_def)

lemma narrowing_idem:
  assumes "narrowing f" and "f xs = Inr ys"
  shows "f ys = Inr ys"
proof -
  from assms have "ys = filter (\<lambda>x. f [x] = Inr [x]) xs"
    by (simp add: narrowing_def)
  then have "\<forall>y\<in>set ys. f [y] = Inr [y]"
    by auto
  with assms show ?thesis
    unfolding narrowing_def by blast
qed

lemma narrowing_single:
  assumes "narrowing f" and "f [x] = Inr r"
  shows "r = [] \<or> (r = [x] \<and> f [x] = Inr [x])"
proof -
  from assms have "r = filter (\<lambda>y. f [y] = Inr [y]) [x]"
    unfolding narrowing_def by blast
  then show ?thesis using assms(2) by (auto split: if_splits)
qed

lemma narrowing_Nil:
  assumes "narrowing f" and "f [] = Inr r"
  shows "r = []"
proof -
  from assms have "r = filter (\<lambda>y. f [y] = Inr [y]) []"
    unfolding narrowing_def by blast
  then show ?thesis by simp
qed

lemma bind_single:
  assumes f: "narrowing f" and g: "narrowing g"
  shows "bind_e (f [x]) g = Inr [x] \<longleftrightarrow> f [x] = Inr [x] \<and> g [x] = Inr [x]"
proof
  assume h: "bind_e (f [x]) g = Inr [x]"
  then obtain r where r: "f [x] = Inr r" and gr: "g r = Inr [x]"
    by (auto simp: bind_e_def split: sum.splits)
  from narrowing_single [OF f r] show "f [x] = Inr [x] \<and> g [x] = Inr [x]"
  proof
    assume "r = []"
    with gr narrowing_Nil [OF g] show ?thesis by auto
  next
    assume "r = [x] \<and> f [x] = Inr [x]"
    with gr show ?thesis by simp
  qed
next
  assume "f [x] = Inr [x] \<and> g [x] = Inr [x]"
  then show "bind_e (f [x]) g = Inr [x]"
    by (simp add: bind_e_def)
qed

lemma narrowing_bind:
  assumes f: "narrowing f" and g: "narrowing g"
  shows "narrowing (\<lambda>xs. bind_e (f xs) g)"
  unfolding narrowing_def bind_single [OF f g]
proof (intro conjI allI impI)
  fix xs zs
  assume "bind_e (f xs) g = Inr zs"
  then obtain ys where ys: "f xs = Inr ys" and zs: "g ys = Inr zs"
    by (auto simp: bind_e_def split: sum.splits)
  from f ys have 1: "ys = filter (\<lambda>x. f [x] = Inr [x]) xs"
    unfolding narrowing_def by blast
  from g zs have 2: "zs = filter (\<lambda>x. g [x] = Inr [x]) ys"
    unfolding narrowing_def by blast
  show "zs = filter (\<lambda>x. f [x] = Inr [x] \<and> g [x] = Inr [x]) xs"
    by (subst 2, subst 1) (simp add: conj_commute)
next
  fix xs
  assume ex: "\<exists>xs0 ys0. bind_e (f xs0) g = Inr ys0"
    and all: "\<forall>x\<in>set xs. f [x] = Inr [x] \<and> g [x] = Inr [x]"
  from ex obtain xs0 zs0 where run: "bind_e (f xs0) g = Inr zs0"
    by blast
  then obtain ys0 where "f xs0 = Inr ys0" and "g ys0 = Inr zs0"
    by (cases "f xs0") (auto simp: bind_e_def)
  with f g all have "f xs = Inr xs" and "g xs = Inr xs"
    unfolding narrowing_def by blast+
  then show "bind_e (f xs) g = Inr xs"
    by (simp add: bind_e_def)
qed

lemma narrowing_apply_filter: "narrowing (apply_filter p)"
proof -
  let ?fl = "py_lower p"
  have 1: "narrowing (\<lambda>js. if any_in [''remote'', ''work from home'', ''wfh''] ?fl
      then filter_e is_remote_job js else Inr js)"
    by (cases "any_in [''remote'', ''work from home'', ''wfh''] ?fl")
      (simp_all add: narrowing_filter_e narrowing_Inr)
  have 2: "narrowing (\<lambda>js. case recency_hours ?fl of
      Some hours \<Rightarrow> filter_e (\<lambda>job. is_recent_job job hours) js | None \<Rightarrow> Inr js)"
    by (cases "recency_hours ?fl") (simp_all add: narrowing_filter_e narrowing_Inr)
  have 3: "narrowing (\<lambda>js. case experience_level ?fl of
      Some level \<Rightarrow> filter_e (\<lambda>job. matches_experience job level) js | None \<Rightarrow> Inr js)"
    by (cases "experience_level ?fl") (simp_all add: narrowing_filter_e narrowing_Inr)
  have 4: "narrowing (\<lambda>js. case salary_floor ?fl of
      None \<Rightarrow> Inr js | Some (Inl e) \<Rightarrow> Inl e
    | Some (Inr amount) \<Rightarrow> filter_e (\<lambda>job. meets_salary_requirement job amount) js)"
  proof (cases "salary_floor ?fl")
    case None
    then show ?thesis by (simp add: narrowing_Inr)
  next
    case (Some parsed)
    then show ?thesis
      by (cases parsed) (simp_all add: narrowing_filter_e narrowing_fail)
  qed
  have "narrowing (\<lambda>js. bind_e (if any_in [''remote'', ''work from home'', ''wfh''] ?fl
      then filter_e is_remote_job js else Inr js)
    (\<lambda>js1. bind_e (case recency_hours ?fl of
        Some hours \<Rightarrow> filter_e (\<lambda>job. is_recent_job job hours) js1 | None \<Rightarrow> Inr js1)
    (\<lambda>js2. bind_e (case experience_level ?fl of
        Some level \<Rightarrow> filter_e (\<lambda>job. matches_experience job level) js2 | None \<Rightarrow> Inr js2)
    (\<lambda>js3. case salary_floor ?fl of
      None \<Rightarrow> Inr js3 | Some (Inl e) \<Rightarrow> Inl e
    | Some (Inr amount) \<Rightarrow> filter_e (\<lambda>job. meets_salary_requirement job amount) js3))))"
    by (intro narrowing_bind 1 2 3 4)
  then show ?thesis
    by (simp add: apply_filter_def [abs_def] Let_def)
qed

lemma narrowing_filter_loop: "narrowing (filter_loop items)"
proof (induction items)
  case Nil
  have "filter_loop [] = Inr" by (rule ext) simp
  then show ?case by (simp add: narrowing_Inr)
next
  case (Cons item items)
  show ?case
  proof (cases "truthy item")
    case False
    then have "filter_loop (item # items) = filter_loop items"
      by (intro ext) simp
    with Cons show ?thesis by simp
  next
    case True
    show ?thesis
    proof (cases item)
      case (PStr s)
      with True have "filter_loop (item # items)
          = (\<lambda>js. bind_e (apply_filter s js) (filter_loop items))"
        by (intro ext) simp
      with Cons narrowing_apply_filter show ?thesis
        by (simp add: narrowing_bind)
    qed (use True in \<open>simp_all add: narrowing_fail\<close>)
  qed
qed

text \<open>
  C5. Applying the filters of a plan to the result of applying them gives the same result as
  applying them once, for every job list and every plan (a plan with a single filter
  phrase in particular); where the first pass raises, so does the sequence.
\<close>

theorem filters_idempotent:
  "bind_e (apply_filters_to_jobs jobs plan) (\<lambda>filtered. apply_filters_to_jobs filtered plan)
     = apply_filters_to_jobs jobs plan"
proof (cases "apply_filters_to_jobs jobs plan")
  case (Inl e)
  then show ?thesis by (simp add: bind_e_def)
next
  case (Inr r)
  have "apply_filters_to_jobs r plan = Inr r"
  proof (cases "jobs = [] \<or> plan = [] \<or> \<not> truthy (dict_get plan ''filters'' (PList []))")
    case True
    with Inr show ?thesis
      by (auto simp: apply_filters_to_jobs_def Let_def)
  next
    case False
    with Inr obtain items where it: "py_iter (dict_get plan ''filters'' (PList [])) = Inr items"
      and loop: "filter_loop items jobs = Inr r"
      by (auto simp: apply_filters_to_jobs_def Let_def bind_e_def split: sum.splits)
    from narrowing_idem [OF narrowing_filter_loop loop] have "filter_loop items r = Inr r" .
    with False it show ?thesis
      by (simp add: apply_filters_to_jobs_def Let_def bind_e_def)
  qed
  with Inr show ?thesis by (simp add: bind_e_def)
qed


section \<open>The range of doubles\<close>

text \<open>
  \<open>to_double\<close> is infinite exactly on the fractions that are too large: it is finite
  below \<open>2 ^ (dbl_max_exp - 1)\<close> and infinite from \<open>2 ^ dbl_max_exp\<close> on.
\<close>

lemma bits_upper: "n < 2 ^ bits n"
proof (induction n rule: bits.induct)
  case (1 n)
  show ?case
  proof (cases "n = 0")
    case True
    then show ?thesis by (simp add: bits.simps)
  next
    case False
    with 1 have "n div 2 < 2 ^ bits (n div 2)" by simp
    then have "n < 2 * 2 ^ bits (n div 2)" by linarith
    with False show ?thesis by (subst bits.simps) simp
  qed
qed

lemma bits_lower: "0 < n \<Longrightarrow> 2 ^ bits n \<le> 2 * n"
proof (induction n rule: bits.induct)
  case (1 n)
  show ?case
  proof (cases "n div 2 = 0")
    case True
    with "1.prems" have "n = 1" by (simp add: div_eq_0_iff) 
    then show ?thesis by (simp add: bits.simps)
  next
    case False
    with 1 have "2 ^ bits (n div 2) \<le> 2 * (n div 2)" by simp
    also have "\<dots> \<le> n" by simp
    finally have "2 * 2 ^ bits (n div 2) \<le> 2 * n" by simp
    with "1.prems" show ?thesis by (subst bits.simps) simp
  qed
qed


lemma ilog2_lower:
  assumes p: "0 < p" and q: "0 < q" and E: "0 \<le> ilog2 p q"
  shows "q * 2 ^ nat (ilog2 p q) \<le> p"
proof -
  define k where "k = int (bits p) - int (bits q)"
  show ?thesis
  proof (cases "if 0 \<le> k then q * 2 ^ nat k \<le> p else q \<le> p * 2 ^ nat (- k)")
    case True
    then have eq: "ilog2 p q = k" unfolding ilog2_def Let_def k_def by simp
    with E have "0 \<le> k" by simp
    with True eq show ?thesis by simp
  next
    case False
    then have eq: "ilog2 p q = k - 1" unfolding ilog2_def Let_def k_def by simp
    with E have k1: "1 \<le> k" by simp
    then have "Suc (bits q) \<le> bits p" by (simp add: k_def)
    then obtain j where "bits p = Suc (bits q) + j" using le_Suc_ex by blast
    then have j: "bits p = Suc (bits q + j)" by simp
    then have nat: "nat (k - 1) = j" by (simp add: k_def)
    have "q * 2 ^ j \<le> 2 ^ bits q * 2 ^ j"
      using bits_upper [of q] by simp
    also have "\<dots> = 2 ^ (bits q + j)" by (simp add: power_add)
    also have "2 * \<dots> = 2 ^ bits p" by (simp add: j)
    finally have "2 * (q * 2 ^ j) \<le> 2 ^ bits p" by simp
    also have "\<dots> \<le> 2 * p" by (rule bits_lower [OF p])
    finally show ?thesis by (simp add: eq nat)
  qed
qed

lemma round_half_even_bounds:
  "n div d \<le> round_half_even n d" "round_half_even n d \<le> n div d + 1"
  by (simp_all add: round_half_even_def Let_def)

lemma to_double_finite:
  assumes "2 * p < q * 2 ^ dbl_max_exp"
  shows "to_double p q \<noteq> PosInf"
proof (cases "p = 0")
  case True
  then show ?thesis by (simp add: to_double_def)
next
  case False
  then have p: "0 < p" by simp
  from assms have q: "0 < q" by (cases q) auto
  define e where "e = max (ilog2 p q - 52) (- 1074)"
  define m where "m = (if 0 \<le> e then round_half_even p (q * 2 ^ nat e)
                    else round_half_even (p * 2 ^ nat (- e)) q)"
  have "\<not> (0 \<le> e \<and> 2 ^ dbl_max_exp \<le> m * 2 ^ nat e)"
  proof
    assume a: "0 \<le> e \<and> 2 ^ dbl_max_exp \<le> m * 2 ^ nat e"
    then have e: "e = ilog2 p q - 52" and E: "0 \<le> ilog2 p q"
      by (auto simp: e_def max_def split: if_splits)
    have "q * 2 ^ nat e \<le> q * 2 ^ nat (ilog2 p q)"
      using e by (intro mult_left_mono power_increasing) auto
    also have "\<dots> \<le> p" by (rule ilog2_lower [OF p q E])
    finally have small: "q * 2 ^ nat e \<le> p" .
    from a have m: "m = round_half_even p (q * 2 ^ nat e)" by (simp add: m_def)
    have "q * (m * 2 ^ nat e) \<le> q * ((p div (q * 2 ^ nat e) + 1) * 2 ^ nat e)"
      unfolding m using round_half_even_bounds(2) [of p "q * 2 ^ nat e"]
      by (intro mult_left_mono mult_right_mono) auto
    also have "\<dots> = p div (q * 2 ^ nat e) * (q * 2 ^ nat e) + q * 2 ^ nat e"
      by (simp add: algebra_simps)
    also have "\<dots> \<le> p + p"
      using small by (intro add_mono) simp_all
    also have "\<dots> < q * 2 ^ dbl_max_exp" using assms by simp
    finally have "m * 2 ^ nat e < 2 ^ dbl_max_exp" using q by simp
    with a show False by simp
  qed
  with False show ?thesis
    by (simp add: to_double_def Let_def e_def [symmetric] m_def [symmetric])
qed

lemma to_double_overflow:
  assumes q: "0 < q" and big: "q * 2 ^ dbl_max_exp \<le> p"
  shows "to_double p q = PosInf"
proof -
  from q big have p: "0 < p" by (cases p) auto
  define k where "k = int (bits p) - int (bits q)"
  have "2 ^ bits q * 2 ^ dbl_max_exp \<le> 2 * q * (2::nat) ^ dbl_max_exp"
    using bits_lower [OF q] by simp
  also have "\<dots> \<le> 2 * p" using big by simp
  also have "\<dots> < 2 * 2 ^ bits p" using bits_upper [of p] by simp
  finally have "(2::nat) ^ (bits q + dbl_max_exp) < 2 ^ Suc (bits p)" by (simp add: power_add)
  then have "bits q + dbl_max_exp < Suc (bits p)" by (simp only: power_strict_increasing_iff)
  then have k: "int dbl_max_exp \<le> k" by (simp add: k_def)
  have E: "int dbl_max_exp \<le> ilog2 p q"
  proof (cases "if 0 \<le> k then q * 2 ^ nat k \<le> p else q \<le> p * 2 ^ nat (- k)")
    case True
    then have "ilog2 p q = k" unfolding ilog2_def Let_def k_def by simp
    with k show ?thesis by simp
  next
    case False
    with k have "p < q * 2 ^ nat k" by simp
    with big have "q * 2 ^ dbl_max_exp < q * 2 ^ nat k" by (rule le_less_trans)
    with q have "(2::nat) ^ dbl_max_exp < 2 ^ nat k" by simp
    then have "dbl_max_exp < nat k" by (simp only: power_strict_increasing_iff)
    moreover from False have "ilog2 p q = k - 1" unfolding ilog2_def Let_def k_def by simp
    ultimately show ?thesis by simp
  qed
  define e where "e = max (ilog2 p q - 52) (- 1074)"
  define m where "m = (if 0 \<le> e then round_half_even p (q * 2 ^ nat e)
                    else round_half_even (p * 2 ^ nat (- e)) q)"
  have big52: "52 \<le> dbl_max_exp" by (simp add: dbl_max_exp_def)
  with E have e: "e = ilog2 p q - 52" and e0: "0 \<le> e" by (simp_all add: e_def)
  then have m: "m = round_half_even p (q * 2 ^ nat e)" by (simp add: m_def)
  from e E big52 have split: "nat (ilog2 p q) = nat e + 52" by simp
  from E have "0 \<le> ilog2 p q" by simp
  then have low: "q * 2 ^ nat (ilog2 p q) \<le> p"
    by (rule ilog2_lower [OF p q])
  have "(2::nat) ^ 52 = (q * 2 ^ nat e * 2 ^ 52) div (q * 2 ^ nat e)"
    using q by simp
  also have "\<dots> \<le> p div (q * 2 ^ nat e)"
    using low by (intro div_le_mono) (simp add: split power_add mult.assoc)
  also have "\<dots> \<le> m" unfolding m by (rule round_half_even_bounds(1))
  finally have "2 ^ 52 \<le> m" .
  then have "2 ^ 52 * 2 ^ nat e \<le> m * 2 ^ nat e" by (rule mult_right_mono) simp
  moreover have "(2::nat) ^ dbl_max_exp \<le> 2 ^ (52 + nat e)"
    using E e by (intro power_increasing) simp_all
  then have "(2::nat) ^ dbl_max_exp \<le> 2 ^ 52 * 2 ^ nat e" by (simp only: power_add)
  ultimately have "2 ^ dbl_max_exp \<le> m * 2 ^ nat e" by (rule order_trans [rotated])
  moreover have "to_double p q
      = (if 0 \<le> e \<and> 2 ^ dbl_max_exp \<le> m * 2 ^ nat e then PosInf else Fin m e)"
    using p by (simp add: to_double_def Let_def e_def m_def)
  ultimately show ?thesis using e0 by simp
qed


section \<open>Captured groups are no longer than the text\<close>

lemma goodD:
  "good N k \<Longrightarrow> length s \<le> N \<Longrightarrow> bounded N g \<Longrightarrow> k s g = Some r \<Longrightarrow> bounded N r"
  unfolding good_def by blast

lemma good_star:
  assumes "good N k"
  shows "good N (star P k)"
  unfolding good_def
proof (intro allI impI)
  fix s g r
  assume "length s \<le> N" "bounded N g" "star P k s g = Some r"
  then show "bounded N r"
  proof (induction s)
    case Nil
    then have "k [] g = Some r" by simp
    from goodD [OF assms _ Nil.prems(2) this] show ?case by simp
  next
    case (Cons c cs)
    show ?case
    proof (cases "P c \<and> star P k cs g \<noteq> None")
      case True
      with Cons.prems have "star P k cs g = Some r" by auto
      with Cons show ?thesis by simp
    next
      case False
      with Cons.prems have "k (c # cs) g = Some r"
        by (auto split: if_splits option.splits)
      from goodD [OF assms Cons.prems(1,2) this] show ?thesis .
    qed
  qed
qed

lemma good_match: "good N k \<Longrightarrow> good N (match r k)"
proof (induction r arbitrary: k)
  case Eps
  then show ?case by (simp add: good_def)
next
  case (Lit c)
  show ?case
    unfolding good_def
  proof (intro allI impI)
    fix s g r
    assume s: "length s \<le> N" and g: "bounded N g" and m: "match (Lit c) k s g = Some r"
    then obtain xs where "s = c # xs" and "k xs g = Some r"
      by (cases s) (auto split: if_splits)
    with s goodD [OF Lit, of xs g r] g show "bounded N r" by simp
  qed
next
  case (Cls P)
  show ?case
    unfolding good_def
  proof (intro allI impI)
    fix s g r
    assume s: "length s \<le> N" and g: "bounded N g" and m: "match (Cls P) k s g = Some r"
    then obtain x xs where "s = x # xs" and "k xs g = Some r"
      by (cases s) (auto split: if_splits)
    with s goodD [OF Cls, of xs g r] g show "bounded N r" by simp
  qed
next
  case (Cat a b)
  then show ?case by simp
next
  case (Alt a b)
  show ?case
    unfolding good_def
  proof (intro allI impI)
    fix s g r
    assume s: "length s \<le> N" and g: "bounded N g" and m: "match (Alt a b) k s g = Some r"
    then have "match a k s g = Some r \<or> match b k s g = Some r"
      by (cases "match a k s g") simp_all
    then show "bounded N r"
    proof
      assume "match a k s g = Some r"
      from goodD [OF Alt.IH(1) [OF Alt.prems] s g this] show ?thesis .
    next
      assume "match b k s g = Some r"
      from goodD [OF Alt.IH(2) [OF Alt.prems] s g this] show ?thesis .
    qed
  qed
next
  case (Opt a)
  show ?case
    unfolding good_def
  proof (intro allI impI)
    fix s g r
    assume s: "length s \<le> N" and g: "bounded N g" and m: "match (Opt a) k s g = Some r"
    then have "match a k s g = Some r \<or> k s g = Some r"
      by (cases "match a k s g") simp_all
    then show "bounded N r"
    proof
      assume "match a k s g = Some r"
      from goodD [OF Opt.IH [OF Opt.prems] s g this] show ?thesis .
    next
      assume "k s g = Some r"
      from goodD [OF Opt.prems s g this] show ?thesis .
    qed
  qed
next
  case (Star P)
  then show ?case by (simp add: good_star)
next
  case (Grp n a)
  show ?case
    unfolding good_def
  proof (intro allI impI)
    fix s g r
    assume s: "length s \<le> N" and g: "bounded N g" and m: "match (Grp n a) k s g = Some r"
    have "good N (\<lambda>s' g'. k s' (g'(n \<mapsto> take (length s - length s') s)))"
      unfolding good_def
    proof (intro allI impI)
      fix s' g' r'
      assume s': "length s' \<le> N" and g': "bounded N g'"
        and k: "k s' (g'(n \<mapsto> take (length s - length s') s)) = Some r'"
      from g' s have "bounded N (g'(n \<mapsto> take (length s - length s') s))"
        by (auto simp: bounded_def)
      with Grp.prems s' k show "bounded N r'"
        unfolding good_def by blast
    qed
    then have "good N (match a (\<lambda>s' g'. k s' (g'(n \<mapsto> take (length s - length s') s))))"
      by (rule Grp.IH)
    moreover from m
    have "match a (\<lambda>s' g'. k s' (g'(n \<mapsto> take (length s - length s') s))) s g = Some r"
      by simp
    ultimately show "bounded N r" using s g by (blast intro: goodD)
  qed
qed

lemma bounded_mono: "bounded N g \<Longrightarrow> N \<le> M \<Longrightarrow> bounded M g"
  by (auto simp: bounded_def intro: order_trans)

lemma search_bounded: "search r s = Some g \<Longrightarrow> bounded (length s) g"
proof (induction s)
  case Nil
  have "good 0 (\<lambda>s g. Some g)" by (simp add: good_def)
  then have "good 0 (match r (\<lambda>s g. Some g))" by (rule good_match)
  moreover have "bounded 0 (\<lambda>n. None)" by (simp add: bounded_def)
  moreover from Nil have "match r (\<lambda>s g. Some g) [] (\<lambda>n. None) = Some g" by simp
  ultimately have "bounded 0 g" by (blast intro: goodD [where s = "[]"])
  then show ?case by simp
next
  case (Cons c cs)
  show ?case
  proof (cases "match r (\<lambda>s g. Some g) (c # cs) (\<lambda>n. None)")
    case None
    with Cons have "bounded (length cs) g" by simp
    then show ?thesis by (rule bounded_mono) simp
  next
    case (Some g')
    with Cons.prems have m: "match r (\<lambda>s g. Some g) (c # cs) (\<lambda>n. None) = Some g" by simp
    have "good (length (c # cs)) (\<lambda>s g. Some g)" by (simp add: good_def)
    then have "good (length (c # cs)) (match r (\<lambda>s g. Some g))" by (rule good_match)
    moreover have "bounded (length (c # cs)) (\<lambda>n. None)" by (simp add: bounded_def)
    ultimately show ?thesis using m by (blast intro: goodD [where s = "c # cs"])
  qed
qed

lemma group_str_length:
  assumes "search r s = Some g"
  shows "length (group_str g n) \<le> length s"
  using search_bounded [OF assms]
  by (auto simp: group_str_def bounded_def split: option.splits)


section \<open>When the filter pass raises\<close>

lemma text_record_lookup:
  assumes "text_record job" and "map_of job f = Some v"
  obtains s where "v = PStr s"
proof -
  from assms(2) have "(f, v) \<in> set job" by (rule map_of_SomeD)
  with assms(1) have "case v of PStr s \<Rightarrow> True | _ \<Rightarrow> False"
    by (auto simp: text_record_def list_all_iff)
  then show ?thesis using that by (cases v) simp_all
qed

lemma remote_loop_total:
  assumes "text_record job"
  shows "\<not> isl (remote_loop job fs)"
proof (induction fs)
  case Nil
  then show ?case by simp
next
  case (Cons f fs)
  show ?case
  proof (cases "map_of job f")
    case None
    with Cons show ?thesis by simp
  next
    case (Some v)
    with assms obtain s where "v = PStr s" by (rule text_record_lookup)
    with Some Cons show ?thesis by (simp add: lower_of_def)
  qed
qed

lemma is_remote_job_total: "text_record job \<Longrightarrow> \<not> isl (is_remote_job job)"
  unfolding is_remote_job_def by (rule remote_loop_total)

lemma experience_loop_total:
  assumes "text_record job"
  shows "\<not> isl (experience_loop job level fs)"
proof (induction fs)
  case Nil
  then show ?case by simp
next
  case (Cons f fs)
  show ?case
  proof (cases "map_of job f")
    case None
    with Cons show ?thesis by simp
  next
    case (Some v)
    with assms obtain s where "v = PStr s" by (rule text_record_lookup)
    with Some Cons show ?thesis by (simp add: lower_of_def)
  qed
qed

lemma matches_experience_total:
  assumes "text_record job"
  shows "\<not> isl (matches_experience job level)"
proof (cases "map_of job ''experience_level''")
  case None
  with experience_loop_total [OF assms] show ?thesis
    by (simp add: matches_experience_def del: experience_loop.simps)
next
  case (Some v)
  with assms obtain s where "v = PStr s" by (rule text_record_lookup)
  with Some experience_loop_total [OF assms] show ?thesis
    by (simp add: matches_experience_def lower_of_def Let_def del: experience_loop.simps)
qed

lemma find_present:
  "find (\<lambda>f. map_of job f \<noteq> None) fs = Some f \<Longrightarrow> \<exists>v. map_of job f = Some v"
  by (induction fs) (auto split: if_splits)

lemma meets_salary_total:
  assumes "text_record job"
  shows "\<not> isl (meets_salary_requirement job amount)"
proof (cases "salary_field job")
  case None
  then show ?thesis by (simp add: meets_salary_requirement_def)
next
  case (Some f)
  then obtain v where v: "map_of job f = Some v"
    unfolding salary_field_def by (blast dest: find_present)
  with assms obtain s where "v = PStr s" by (rule text_record_lookup)
  with Some v show ?thesis
    by (simp add: meets_salary_requirement_def dict_get_def lower_of_def)
qed

lemma recent_text_total:
  assumes "length t \<le> 4300"
  shows "\<not> isl (recent_text t hours)"
proof (cases "time_match t")
  case None
  then show ?thesis by (simp add: recent_text_unparsed)
next
  case (Some g)
  then have "length (group_str g 1) \<le> length t"
    unfolding time_match_def by (rule group_str_length)
  with assms have "py_int (group_str g 1) = Inr (int (dec (group_str g 1)))"
    by (simp add: py_int_def)
  with Some show ?thesis
    by (simp add: recent_text_def Let_def)
qed

lemma is_recent_job_total:
  assumes "text_record job" and "short_date job"
  shows "\<not> isl (is_recent_job job hours)"
proof (cases "date_field job")
  case None
  then show ?thesis by (simp add: is_recent_job_def)
next
  case (Some f)
  then obtain v where v: "map_of job f = Some v"
    unfolding date_field_def by (blast dest: find_present)
  with assms(1) obtain s where s: "v = PStr s" by (rule text_record_lookup)
  with Some v assms(2) have "length s \<le> 4300"
    by (simp add: short_date_def dict_get_def)
  then have "length (py_lower s) \<le> 4300" by (simp add: py_lower_def)
  from recent_text_total [OF this, of hours] Some v s show ?thesis
    by (auto simp: is_recent_job_def dict_get_def lower_of_def)
qed

lemma ordinary_total:
  assumes "ordinary_record job"
  shows "\<not> isl (is_remote_job job)"
    and "\<not> isl (is_recent_job job hours)"
    and "\<not> isl (matches_experience job level)"
    and "\<not> isl (meets_salary_requirement job amount)"
  using assms
  by (simp_all add: ordinary_record_def is_remote_job_total is_recent_job_total
      matches_experience_total meets_salary_total)

lemma filter_e_total:
  assumes "\<forall>x\<in>set xs. \<not> isl (p x)"
  shows "\<exists>ys. filter_e p xs = Inr ys \<and> set ys \<subseteq> set xs"
  using assms
proof (induction xs)
  case Nil
  then show ?case by simp
next
  case (Cons x xs)
  then obtain ys where ys: "filter_e p xs = Inr ys" "set ys \<subseteq> set xs"
    by auto
  from Cons.prems obtain b where "p x = Inr b"
    by (cases "p x") auto
  with ys show ?case by auto
qed

lemma foldl_dec_upper:
  "foldl (\<lambda>a c. 10 * a + ((of_char c :: nat) - 48)) a s + 23 \<le> (a + 23) * 10 ^ length s"
proof (induction s arbitrary: a)
  case Nil
  then show ?case by simp
next
  case (Cons c s)
  define d where "d = (of_char c :: nat) - 48"
  have "(of_char c :: nat) < 256" by (rule nat_of_char_less_256)
  then have d: "10 * a + d + 23 \<le> 10 * (a + 23)" unfolding d_def by arith
  have "foldl (\<lambda>a c. 10 * a + ((of_char c :: nat) - 48)) (10 * a + d) s + 23
      \<le> (10 * a + d + 23) * 10 ^ length s"
    by (rule Cons)
  also have "\<dots> \<le> 10 * (a + 23) * 10 ^ length s"
    using d by (rule mult_right_mono) simp
  also have "\<dots> = (a + 23) * 10 ^ length (c # s)" by simp
  finally show ?case by (simp add: d_def)
qed

lemma dec_upper: "dec s < 23 * 10 ^ length s"
  using foldl_dec_upper [of 0 s] by (simp add: dec_def)

lemma foldl_dec_lower:
  "a * 10 ^ length s \<le> foldl (\<lambda>a c. 10 * a + ((of_char c :: nat) - 48)) a s"
proof (induction s arbitrary: a)
  case Nil
  then show ?case by simp
next
  case (Cons c s)
  define d where "d = (of_char c :: nat) - 48"
  have "a * 10 ^ length (c # s) = 10 * a * 10 ^ length s" by simp
  also have "\<dots> \<le> (10 * a + d) * 10 ^ length s"
    by (rule mult_right_mono) simp_all
  also have "\<dots> \<le> foldl (\<lambda>a c. 10 * a + ((of_char c :: nat) - 48)) (10 * a + d) s"
    by (rule Cons)
  finally show ?case by (simp add: d_def)
qed

lemma int_truediv_short:
  assumes "length s \<le> 300"
  shows "\<not> isl (int_truediv (dec s) 100)"
proof -
  have "(10::nat) ^ length s \<le> 10 ^ 300"
    using assms by (intro power_increasing) simp_all
  then have "23 * (10::nat) ^ length s \<le> 23 * 10 ^ 300" by simp
  with dec_upper [of s] have "dec s < 23 * 10 ^ 300" by (rule less_le_trans)
  then have "2 * dec s < 46 * 10 ^ 300" by simp
  also have "(46::nat) * 10 ^ 300 \<le> 100 * 2 ^ 1024" by simp
  finally have "2 * dec s < 100 * 2 ^ dbl_max_exp" by (simp add: dbl_max_exp_def)
  then have "to_double (dec s) 100 \<noteq> PosInf" by (rule to_double_finite)
  then show ?thesis
    by (cases "to_double (dec s) 100") (simp_all add: int_truediv_def)
qed

lemma salary_floor_short:
  assumes "length filter_lower \<le> 300"
  shows "salary_floor filter_lower \<noteq> Some (Inl e)"
proof (cases "search floor_re filter_lower")
  case None
  then show ?thesis by (simp add: salary_floor_def)
next
  case (Some g)
  then have "length (group_str g 3) \<le> length filter_lower" by (rule group_str_length)
  with assms have len: "length (group_str g 3) \<le> 300" by simp
  then have int: "py_int (group_str g 3) = Inr (int (dec (group_str g 3)))"
    by (simp add: py_int_def)
  from int_truediv_short [OF len] obtain x where "int_truediv (dec (group_str g 3)) 100 = Inr x"
    by (cases "int_truediv (dec (group_str g 3)) 100") auto
  with Some int show ?thesis
    by (simp add: salary_floor_def Let_def)
qed

lemma apply_filter_stages:
  assumes jobs: "\<forall>job\<in>set jobs. ordinary_record job"
  shows "\<exists>js3. set js3 \<subseteq> set jobs \<and>
    apply_filter filter_item jobs =
      (case salary_floor (py_lower filter_item) of
         None \<Rightarrow> Inr js3
       | Some (Inl e) \<Rightarrow> Inl e
       | Some (Inr amount) \<Rightarrow> filter_e (\<lambda>job. meets_salary_requirement job amount) js3)"
proof -
  let ?fl = "py_lower filter_item"
  have stage: "\<exists>r. filter_e p js = Inr r \<and> set r \<subseteq> set js"
    if "set js \<subseteq> set jobs" and "\<And>job. ordinary_record job \<Longrightarrow> \<not> isl (p job)" for p js
    using that jobs by (intro filter_e_total) blast
  obtain js1 where 1: "(if any_in [''remote'', ''work from home'', ''wfh''] ?fl
      then filter_e is_remote_job jobs else Inr jobs) = Inr js1" and s1: "set js1 \<subseteq> set jobs"
  proof (cases "any_in [''remote'', ''work from home'', ''wfh''] ?fl")
    case False
    with that show ?thesis by simp
  next
    case True
    from stage [of jobs is_remote_job] ordinary_total(1)
    obtain r where "filter_e is_remote_job jobs = Inr r" "set r \<subseteq> set jobs"
      by blast
    with True that show ?thesis by auto
  qed
  obtain js2 where 2: "(case recency_hours ?fl of
        Some hours \<Rightarrow> filter_e (\<lambda>job. is_recent_job job hours) js1
      | None \<Rightarrow> Inr js1) = Inr js2" and s2: "set js2 \<subseteq> set jobs"
  proof (cases "recency_hours ?fl")
    case None
    with s1 that show ?thesis by simp
  next
    case (Some hours)
    from stage [OF s1, of "\<lambda>job. is_recent_job job hours"] ordinary_total(2)
    obtain r where "filter_e (\<lambda>job. is_recent_job job hours) js1 = Inr r" "set r \<subseteq> set js1"
      by blast
    with Some s1 that show ?thesis by auto
  qed
  obtain js3 where 3: "(case experience_level ?fl of
        Some level \<Rightarrow> filter_e (\<lambda>job. matches_experience job level) js2
      | None \<Rightarrow> Inr js2) = Inr js3" and s3: "set js3 \<subseteq> set jobs"
  proof (cases "experience_level ?fl")
    case None
    with s2 that show ?thesis by simp
  next
    case (Some level)
    from stage [OF s2, of "\<lambda>job. matches_experience job level"] ordinary_total(3)
    obtain r where "filter_e (\<lambda>job. matches_experience job level) js2 = Inr r"
      "set r \<subseteq> set js2"
      by blast
    with Some s2 that show ?thesis by auto
  qed
  from 1 2 3 have "apply_filter filter_item jobs =
      (case salary_floor ?fl of
         None \<Rightarrow> Inr js3
       | Some (Inl e) \<Rightarrow> Inl e
       | Some (Inr amount) \<Rightarrow> filter_e (\<lambda>job. meets_salary_requirement job amount) js3)"
    by (simp add: apply_filter_def Let_def bind_e_def)
  with s3 show ?thesis by blast
qed

lemma apply_filter_total:
  assumes jobs: "\<forall>job\<in>set jobs. ordinary_record job"
    and short: "length filter_item \<le> 300"
  shows "\<exists>r. apply_filter filter_item jobs = Inr r \<and> set r \<subseteq> set jobs"
proof -
  let ?fl = "py_lower filter_item"
  from apply_filter_stages [OF jobs, of filter_item]
  obtain js3 where s3: "set js3 \<subseteq> set jobs"
    and eq: "apply_filter filter_item jobs =
      (case salary_floor ?fl of
         None \<Rightarrow> Inr js3
       | Some (Inl e) \<Rightarrow> Inl e
       | Some (Inr amount) \<Rightarrow> filter_e (\<lambda>job. meets_salary_requirement job amount) js3)"
    by blast
  from short have fl: "length ?fl \<le> 300" by (simp add: py_lower_def)
  show ?thesis
  proof (cases "salary_floor ?fl")
    case None
    with s3 eq show ?thesis by simp
  next
    case (Some parsed)
    show ?thesis
    proof (cases parsed)
      case (Inl e)
      with Some salary_floor_short [OF fl, of e] show ?thesis by simp
    next
      case (Inr amount)
      have "\<forall>job\<in>set js3. \<not> isl (meets_salary_requirement job amount)"
        using s3 jobs ordinary_total(4) by blast
      then obtain r where "filter_e (\<lambda>job. meets_salary_requirement job amount) js3 = Inr r"
        "set r \<subseteq> set js3"
        using filter_e_total [of js3 "\<lambda>job. meets_salary_requirement job amount"] by blast
      with Some Inr s3 eq show ?thesis by auto
    qed
  qed
qed

lemma apply_filter_raises:
  assumes "\<forall>job\<in>set jobs. ordinary_record job"
    and "salary_floor (py_lower filter_item) = Some (Inl e)"
  shows "apply_filter filter_item jobs = Inl e"
  using apply_filter_stages [OF assms(1), of filter_item] assms(2) by auto

lemma filter_loop_total:
  assumes "\<forall>job\<in>set jobs. ordinary_record job"
    and "\<forall>p\<in>set phrases. length p \<le> 300"
  shows "\<exists>r. filter_loop (map PStr phrases) jobs = Inr r"
  using assms
proof (induction phrases arbitrary: jobs)
  case Nil
  then show ?case by simp
next
  case (Cons p phrases)
  show ?case
  proof (cases "p = []")
    case True
    with Cons.IH [of jobs] Cons.prems show ?thesis by simp
  next
    case False
    from apply_filter_total [of jobs p] Cons.prems
    obtain r where r: "apply_filter p jobs = Inr r" "set r \<subseteq> set jobs"
      by auto
    with Cons.prems have "\<forall>job\<in>set r. ordinary_record job" by blast
    with Cons.IH [of r] Cons.prems(2) obtain r' where "filter_loop (map PStr phrases) r = Inr r'"
      by auto
    with r False show ?thesis
      by (simp add: bind_e_def)
  qed
qed

lemma apply_filter_no_category:
  assumes "no_category filter_item"
  shows "apply_filter filter_item jobs = Inr jobs"
  using assms
  by (simp add: no_category_def apply_filter_def Let_def bind_e_def salary_floor_def)

text \<open>
  C6, as amended. On job records whose values are strings, of any length except that the
  date text read by the recency predicate has at most 4300 characters, and filter phrases of
  at most 300 characters, applying the filters raises no exception; and a phrase that none of
  the categories recognises leaves the job list as it is.
\<close>

theorem filters_return_on_ordinary_text:
  assumes "\<forall>job\<in>set jobs. ordinary_record job"
    and "dict_get plan ''filters'' (PList []) = PList (map PStr phrases)"
    and "\<forall>p\<in>set phrases. length p \<le> 300"
  shows "(\<exists>r. apply_filters_to_jobs jobs plan = Inr r) \<and>
    (no_category filter_item \<longrightarrow> apply_filter filter_item filtered_jobs = Inr filtered_jobs)"
proof -
  from filter_loop_total [OF assms(1,3)]
  obtain r where "filter_loop (map PStr phrases) jobs = Inr r" ..
  with assms(2) have "\<exists>r. apply_filters_to_jobs jobs plan = Inr r"
    by (simp add: apply_filters_to_jobs_def Let_def py_iter_def bind_e_def)
  then show ?thesis
    by (simp add: apply_filter_no_category)
qed

theorem filters_return_on_ordinary_text_witness:
  "list_all ordinary_record
     [[(''title'', PStr ''Remote Data Analyst''), (''location'', PStr ''Remote, India''),
       (''date'', PStr ''Posted 4 days ago''), (''salary'', PStr ''12-18 LPA'')]] \<and>
   dict_get [(''site'', PStr ''https://www.foundit.in''),
       (''filters'', PList [PStr ''Remote'', PStr ''Last 7 days'', PStr ''salary above 10 LPA''])]
     ''filters'' (PList [])
     = PList (map PStr [''Remote'', ''Last 7 days'', ''salary above 10 LPA'']) \<and>
   list_all (\<lambda>p. length p \<le> 300) [''Remote'', ''Last 7 days'', ''salary above 10 LPA''] \<and>
   (\<exists>r. apply_filters_to_jobs
      [[(''title'', PStr ''Remote Data Analyst''), (''location'', PStr ''Remote, India''),
        (''date'', PStr ''Posted 4 days ago''), (''salary'', PStr ''12-18 LPA'')]]
      [(''site'', PStr ''https://www.foundit.in''),
       (''filters'', PList [PStr ''Remote'', PStr ''Last 7 days'', PStr ''salary above 10 LPA''])]
      = Inr r) \<and>
   no_category ''Full time'' \<and>
   apply_filter ''Full time'' [[(''title'', PStr ''Remote Data Analyst'')]]
     = Inr [[(''title'', PStr ''Remote Data Analyst'')]]"
proof -
  have a: "\<forall>job\<in>set [[(''title'', PStr ''Remote Data Analyst''),
        (''location'', PStr ''Remote, India''),
        (''date'', PStr ''Posted 4 days ago''), (''salary'', PStr ''12-18 LPA'')]].
      ordinary_record job"
    by (simp add: ordinary_record_def text_record_def short_date_def date_field_def dict_get_def)
  have b: "dict_get [(''site'', PStr ''https://www.foundit.in''),
       (''filters'', PList [PStr ''Remote'', PStr ''Last 7 days'', PStr ''salary above 10 LPA''])]
     ''filters'' (PList [])
     = PList (map PStr [''Remote'', ''Last 7 days'', ''salary above 10 LPA''])"
    by (simp add: dict_get_def)
  have c: "\<forall>p\<in>set [''Remote'', ''Last 7 days'', ''salary above 10 LPA'']. length p \<le> 300"
    by simp
  have d: "no_category ''Full time''"
    by (simp add: no_category_def py_lower_def lower_char_def any_in_def recency_hours_def
        experience_level_def floor_re_def alts_def lit_def digits1_def spaces_def is_digit_def
        is_space_def)
  from filters_return_on_ordinary_text [OF a b c,
      of "''Full time''" "[[(''title'', PStr ''Remote Data Analyst'')]]"] a b c d
  show ?thesis by (simp add: list_all_iff)
qed

lemma star_skip:
  assumes "\<forall>c\<in>set ds. P c" and "star P k rest g \<noteq> None"
  shows "star P k (ds @ rest) g = star P k rest g"
  using assms by (induction ds) auto

lemma lower_huge:
  "py_lower (''salary above 1'' @ replicate 400 CHR ''0'' @ ''k'')
     = ''salary above 1'' @ replicate 400 CHR ''0'' @ ''k''"
  by (simp add: py_lower_def lower_char_def)

lemma search_huge:
  "map_option (\<lambda>g. (group_str g 3, group_str g 4))
     (search floor_re (''salary above 1'' @ replicate 400 CHR ''0'' @ ''k''))
   = Some (CHR ''1'' # replicate 400 CHR ''0'', ''k'')"
  by (simp add: floor_re_def alts_def lit_def digits1_def spaces_def is_digit_def is_space_def
      group_str_def star_skip)

lemma dec_huge: "100 * 2 ^ dbl_max_exp \<le> dec (CHR ''1'' # replicate 400 CHR ''0'')"
proof -
  have "(100::nat) * 2 ^ 1024 \<le> 1 * 10 ^ 400" by simp
  also have "\<dots> = 1 * 10 ^ length (replicate 400 CHR ''0'')" by simp
  also have "\<dots> \<le> foldl (\<lambda>a c. 10 * a + ((of_char c :: nat) - 48)) 1 (replicate 400 CHR ''0'')"
    by (rule foldl_dec_lower)
  finally show ?thesis by (simp add: dec_def dbl_max_exp_def)
qed

lemma floor_huge:
  "salary_floor (''salary above 1'' @ replicate 400 CHR ''0'' @ ''k'') = Some (Inl OverflowError)"
proof -
  from search_huge obtain g
    where g: "search floor_re (''salary above 1'' @ replicate 400 CHR ''0'' @ ''k'') = Some g"
      and g3: "group_str g 3 = CHR ''1'' # replicate 400 CHR ''0''"
      and g4: "group_str g 4 = ''k''"
    by (cases "search floor_re (''salary above 1'' @ replicate 400 CHR ''0'' @ ''k'')") auto
  have "to_double (dec (CHR ''1'' # replicate 400 CHR ''0'')) 100 = PosInf"
    by (rule to_double_overflow [OF _ dec_huge]) simp
  then have "int_truediv (dec (CHR ''1'' # replicate 400 CHR ''0'')) 100 = Inl OverflowError"
    by (simp add: int_truediv_def)
  with g g3 g4 show ?thesis
    by (simp add: salary_floor_def py_int_def py_lower_def lower_char_def)
qed

text \<open>
  C6, as stated, fails: a salary floor in thousands whose hundredth is beyond the range of
  a float makes \<open>amount / 100\<close> raise OverflowError, here with an amount of 401 digits.
\<close>

theorem filters_raise_on_huge_floor:
  "apply_filters_to_jobs [[(''title'', PStr ''Data Engineer'')]]
     [(''filters'', PList [PStr (''salary above 1'' @ replicate 400 CHR ''0'' @ ''k'')])]
   = Inl OverflowError"
proof -
  have "\<forall>job\<in>set [[(''title'', PStr ''Data Engineer'')]]. ordinary_record job"
    by (simp add: ordinary_record_def text_record_def short_date_def date_field_def)
  moreover have "salary_floor (py_lower (''salary above 1'' @ replicate 400 CHR ''0'' @ ''k''))
      = Some (Inl OverflowError)"
    by (simp only: lower_huge floor_huge)
  ultimately have "apply_filter (''salary above 1'' @ replicate 400 CHR ''0'' @ ''k'')
      [[(''title'', PStr ''Data Engineer'')]] = Inl OverflowError"
    by (rule apply_filter_raises)
  then show ?thesis
    by (simp add: apply_filters_to_jobs_def dict_get_def py_iter_def bind_e_def)
qed

lemma py_in_skip:
  assumes "p \<noteq> c"
  shows "py_in (p # ps) (replicate n c @ rest) = py_in (p # ps) rest"
  using assms by (induction n) simp_all

lemma lower_huge_date:
  "py_lower (CHR ''1'' # replicate 4300 CHR ''1'' @ '' days ago'')
     = CHR ''1'' # replicate 4300 CHR ''1'' @ '' days ago''"
  by (simp add: py_lower_def lower_char_def)

lemma search_huge_date:
  "map_option (\<lambda>g. group_str g 1)
     (time_match (CHR ''1'' # replicate 4300 CHR ''1'' @ '' days ago''))
   = Some (CHR ''1'' # replicate 4300 CHR ''1'')"
  by (simp add: time_match_def time_re_def alts_def lit_def digits1_def spaces_def is_digit_def
      is_space_def group_str_def star_skip)

lemma recent_huge_date:
  "recent_text (CHR ''1'' # replicate 4300 CHR ''1'' @ '' days ago'') hours = Inl ValueError"
proof -
  from search_huge_date obtain g
    where g: "time_match (CHR ''1'' # replicate 4300 CHR ''1'' @ '' days ago'') = Some g"
      and g1: "group_str g 1 = CHR ''1'' # replicate 4300 CHR ''1''"
    by (cases "time_match (CHR ''1'' # replicate 4300 CHR ''1'' @ '' days ago'')") auto
  have "py_int (CHR ''1'' # replicate 4300 CHR ''1'') = Inl ValueError"
    by (simp add: py_int_def)
  with g g1 show ?thesis
    by (simp add: recent_text_def py_in_skip)
qed

text \<open>
  The bound on the date text is needed as well: \<open>int\<close> refuses a group of more than 4300
  digits, so a date of 4301 digits raises ValueError under a recency filter.
\<close>

lemma filters_raise_on_huge_date:
  "apply_filters_to_jobs
     [[(''title'', PStr ''Data Engineer''),
       (''date'', PStr (CHR ''1'' # replicate 4300 CHR ''1'' @ '' days ago''))]]
     [(''filters'', PList [PStr ''Last 7 days''])]
   = Inl ValueError"
proof -
  have "is_recent_job [(''title'', PStr ''Data Engineer''),
       (''date'', PStr (CHR ''1'' # replicate 4300 CHR ''1'' @ '' days ago''))] hours
      = Inl ValueError" for hours
    unfolding is_recent_job_def
    by (simp add: date_field_def dict_get_def lower_of_def lower_huge_date recent_huge_date)
  then have "apply_filter ''Last 7 days''
      [[(''title'', PStr ''Data Engineer''),
        (''date'', PStr (CHR ''1'' # replicate 4300 CHR ''1'' @ '' days ago''))]]
      = Inl ValueError"
    by (simp add: apply_filter_def Let_def py_lower_def lower_char_def any_in_def
        recency_hours_def bind_e_def)
  then show ?thesis
    by (simp add: apply_filters_to_jobs_def dict_get_def py_iter_def bind_e_def)
qed


section \<open>The sample tier keeps its records\<close>

lemmas sample_eval = get_sample_jobs_def get_sample_jobs_from_def by_site_def by_search_term_def
  by_location_def matches_terms_def in_location_def site_key_def slice_to_def py_split_def
  get_str_def py_lower_def lower_char_def is_space_def SAMPLE_JOBS_def

lemma by_search_term_nonempty: "js \<noteq> [] \<Longrightarrow> by_search_term js search_term \<noteq> []"
  by (simp add: by_search_term_def Let_def)

lemma by_location_nonempty: "js \<noteq> [] \<Longrightarrow> by_location js location \<noteq> []"
  by (simp add: by_location_def Let_def)

lemma slice_to_nonempty: "xs \<noteq> [] \<Longrightarrow> 1 \<le> n \<Longrightarrow> slice_to (min n (int (length xs))) xs \<noteq> []"
  by (cases xs) (auto simp: slice_to_def min_def)

text \<open>
  C10. In \<open>get_sample_jobs\<close> the search-term step keeps the site-filtered list
  unchanged when no job's title or description contains all the words of the search term, and
  the location step keeps its list unchanged when no job's location contains the location.
  Hence, when the site step leaves at least one sample record and at least one job is asked for,
  the function returns a non-empty list, whatever the search term and the location are.
\<close>

theorem sample_filters_never_empty:
  "(\<not> (\<exists>job\<in>set js. matches_terms (py_split (py_lower search_term)) job) \<longrightarrow>
      by_search_term js search_term = js) \<and>
   (\<not> (\<exists>job\<in>set js. in_location location job) \<longrightarrow> by_location js location = js) \<and>
   (by_site sample_jobs site \<noteq> [] \<longrightarrow> 1 \<le> count \<longrightarrow>
      get_sample_jobs_from sample_jobs search_term location site count \<noteq> [])"
proof (intro conjI impI)
  assume "\<not> (\<exists>job\<in>set js. matches_terms (py_split (py_lower search_term)) job)"
  then have "filter (matches_terms (py_split (py_lower search_term))) js = []"
    by (simp add: filter_empty_conv)
  then show "by_search_term js search_term = js"
    by (simp add: by_search_term_def)
next
  assume "\<not> (\<exists>job\<in>set js. in_location location job)"
  then have "filter (in_location location) js = []"
    by (simp add: filter_empty_conv)
  then show "by_location js location = js"
    by (simp add: by_location_def)
next
  assume "by_site sample_jobs site \<noteq> []" and "1 \<le> count"
  then show "get_sample_jobs_from sample_jobs search_term location site count \<noteq> []"
    unfolding get_sample_jobs_from_def Let_def
    by (intro slice_to_nonempty by_location_nonempty by_search_term_nonempty)
qed


theorem sample_filters_never_empty_witness:
  "\<not> (\<exists>job\<in>set (by_site SAMPLE_JOBS ''naukri.com'').
        matches_terms (py_split (py_lower ''Quantum Physicist'')) job) \<and>
   by_search_term (by_site SAMPLE_JOBS ''naukri.com'') ''Quantum Physicist''
     = by_site SAMPLE_JOBS ''naukri.com'' \<and>
   \<not> (\<exists>job\<in>set (by_site SAMPLE_JOBS ''naukri.com''). in_location ''Antarctica'' job) \<and>
   by_location (by_site SAMPLE_JOBS ''naukri.com'') ''Antarctica''
     = by_site SAMPLE_JOBS ''naukri.com'' \<and>
   by_site SAMPLE_JOBS ''naukri.com'' \<noteq> [] \<and> (1::int) \<le> 5 \<and>
   get_sample_jobs ''Quantum Physicist'' ''Antarctica'' ''naukri.com'' 5 \<noteq> []"
proof -
  have a: "\<not> (\<exists>job\<in>set (by_site SAMPLE_JOBS ''naukri.com'').
        matches_terms (py_split (py_lower ''Quantum Physicist'')) job)"
    by (simp add: sample_eval)
  have b: "\<not> (\<exists>job\<in>set (by_site SAMPLE_JOBS ''naukri.com''). in_location ''Antarctica'' job)"
    by (simp add: sample_eval)
  have c: "by_site SAMPLE_JOBS ''naukri.com'' \<noteq> []"
    by (simp add: sample_eval)
  from a b c
    sample_filters_never_empty [of "by_site SAMPLE_JOBS ''naukri.com''" "''Quantum Physicist''"
      "''Antarctica''" SAMPLE_JOBS "''naukri.com''" 5]
  show ?thesis
    unfolding get_sample_jobs_def by simp
qed

section \<open>The order of the tiers\<close>

lemmas tier_eval = run_job_scraper_def first_level_def level2_def level3_def level4_def
  is_linkedin_def tier_order_def

text \<open>
  C2, as amended. For a request whose site is a string, \<open>run_job_scraper\<close> is the cascade
  over the lightweight scraper, the browser scraper, the simple scraper and the sample data, in
  this order, with the dedicated LinkedIn scraper before them when the lowered site contains
  \<open>linkedin\<close>: a tier is entered when the one before returned the empty list, the first
  non-empty result is returned and no later tier is called, and a tier that raises ends the
  run with the empty list.
\<close>

theorem orchestrator_tier_order:
  "run_job_scraper out (PStr site) = cascade out (tier_order site)"
proof (cases "site = []")
  case True
  then show ?thesis
    by (simp add: tier_eval py_lower_def split: sum.splits prod.splits)
next
  case False
  then show ?thesis
    by (simp add: tier_eval split: sum.splits prod.splits)
qed

theorem orchestrator_tier_order_witness:
  "run_job_scraper
     (\<lambda>t. if t = simple_scraper then Inr [[(''title'', PStr ''Data Analyst'')]] else Inr [])
     (PStr ''foundit.in'')
     = ([ultra_scraper, browser_executor, simple_scraper], [[(''title'', PStr ''Data Analyst'')]])"
  using orchestrator_tier_order
    [of "\<lambda>t. if t = simple_scraper then Inr [[(''title'', PStr ''Data Analyst'')]] else Inr []"
      "''foundit.in''"]
  by (simp add: tier_order_def py_lower_def lower_char_def)

text \<open>
  C2, as stated, fails on a LinkedIn request: when the dedicated scraper finds a job, it is
  the only tier called, whereas the fixed order of the four tiers would call all four and
  return the empty list.
\<close>

theorem linkedin_request_skips_lightweight:
  "run_job_scraper
     (\<lambda>t. if t = linkedin_scraper then Inr [[(''title'', PStr ''Senior Developer'')]] else Inr [])
     (PStr ''linkedin.com'')
     = ([linkedin_scraper], [[(''title'', PStr ''Senior Developer'')]]) \<and>
   cascade
     (\<lambda>t. if t = linkedin_scraper then Inr [[(''title'', PStr ''Senior Developer'')]] else Inr [])
     [ultra_scraper, browser_executor, simple_scraper, sample_data]
     = ([ultra_scraper, browser_executor, simple_scraper, sample_data], [])"
  by (simp add: tier_eval py_lower_def lower_char_def)


section \<open>The lightweight tier on Naukri\<close>

text \<open>
  C8 fails in the lightweight tier. For the site \<open>naukri.com\<close>, whatever the other
  arguments and the network are, \<open>scrape_jobs\<close> raises \<open>TypeError\<close>; and the orchestrator,
  given this outcome of its lightweight tier, calls no other tier and returns the empty list.
\<close>

theorem scrape_jobs_naukri_raises:
  "scrape_jobs lib w location (PStr ''naukri.com'') max_jobs = Inl TypeError \<and>
   run_job_scraper
     (out(ultra_scraper := scrape_jobs lib w location (PStr ''naukri.com'') max_jobs))
     (PStr ''naukri.com'')
     = ([ultra_scraper], [])"
proof -
  have "scrape_jobs lib w location (PStr ''naukri.com'') max_jobs = Inl TypeError"
    by (simp add: scrape_jobs_def site_text_def py_lower_def lower_char_def scrape_naukri_def
        bind_e_def)
  then show ?thesis
    by (simp add: tier_eval py_lower_def lower_char_def)
qed


section \<open>Records accepted by the extractors\<close>

text \<open>
  \<open>JobExtractor.extract_structured_data\<close> returns only records that pass the acceptance
  test.
\<close>

lemma extract_job_valid:
  "extract_job_from_jsonld lib d site = Some job \<Longrightarrow> has_title_and_other job"
  by (auto simp: extract_job_from_jsonld_def Let_def split: sum.splits if_splits)

lemma posting_jobs_dict:
  "posting_jobs lib site (PDict d) =
     (if is_job_posting (PDict d)
      then (case extract_job_from_jsonld lib d site of None \<Rightarrow> [] | Some job \<Rightarrow> [job])
      else [])"
  by (simp add: posting_jobs_def)

lemma posting_jobs_valid:
  assumes "job \<in> set (posting_jobs lib site item)"
  shows "has_title_and_other job"
proof (cases item)
  case (PDict d)
  show ?thesis
  proof (cases "is_job_posting (PDict d)")
    case True
    then have "posting_jobs lib site (PDict d) =
        (case extract_job_from_jsonld lib d site of None \<Rightarrow> [] | Some job \<Rightarrow> [job])"
      by (simp add: posting_jobs_dict)
    with assms PDict
    have "job \<in> set (case extract_job_from_jsonld lib d site of None \<Rightarrow> [] | Some job \<Rightarrow> [job])"
      by simp
    then have "extract_job_from_jsonld lib d site = Some job"
      by (cases "extract_job_from_jsonld lib d site") simp_all
    then show ?thesis by (rule extract_job_valid)
  next
    case False
    then have "posting_jobs lib site (PDict d) = []"
      by (simp add: posting_jobs_dict)
    with assms PDict show ?thesis by simp
  qed
qed (use assms in \<open>simp_all add: posting_jobs_def\<close>)

lemma script_jobs_valid:
  assumes "job \<in> set (script_jobs lib site script)"
  shows "has_title_and_other job"
proof (cases script)
  case None
  with assms show ?thesis by (simp add: script_jobs_def)
next
  case (Some v)
  with assms show ?thesis
    by (cases v) (auto simp: script_jobs_def dest: posting_jobs_valid)
qed

lemma extract_structured_data_valid:
  "job \<in> set (extract_structured_data lib tags site) \<Longrightarrow> has_title_and_other job"
  by (auto simp: extract_structured_data_def dest: script_jobs_valid)

lemmas foundit_eval = scrape_foundit_def ultra_extract_structured_data_def foundit_selectors_def
  slice_to_def card_job_def clean_text_def py_strip_def is_space_def ultra_script_def
  ultra_posting_def dict_get_def py_get_def locality_def description_preview_def bind_e_def

text \<open>
  The lightweight scraper of Foundit has no such test on its structured records: a posting
  without a title is returned with the empty title.
\<close>

lemma scrape_foundit_structured_empty_title:
  "scrape_foundit
     (Some \<lparr>scripts = [Some (PDict [(''@type'', PStr ''JobPosting'')])],
            select = (\<lambda>selector. []),
            potential_job_elements = []\<rparr>) ''Pune'' 20
     = [[(''title'', PStr []), (''company'', PStr []), (''location'', PStr []),
         (''posted_date'', PStr []), (''source'', PStr ''Structured Data''),
         (''description'', PStr [])]]"
  by (simp add: foundit_eval)

text \<open>
  C1 fails in the lightweight scraper of Foundit. On a page with one
  \<open>.card-apply-content\<close> card whose title element holds a single space, \<open>_scrape_foundit\<close>
  returns a record whose title is the empty string.
\<close>

theorem scrape_foundit_accepts_empty_title:
  "scrape_foundit
     (Some \<lparr>scripts = [],
            select = (\<lambda>selector. if selector = ''.card-apply-content''
              then [\<lparr>title_elem = Some '' '', company_elem = Some ''Acme'',
                     location_elem = None\<rparr>]
              else []),
            potential_job_elements = []\<rparr>) ''Pune'' 20
     = [[(''title'', PStr []), (''company'', PStr ''Acme''), (''location'', PStr ''Pune''),
         (''posted_date'', PStr ''Recent''), (''source'', PStr ''Foundit.in''),
         (''description'', PStr ''View job details on Foundit.in'')]]"
  by (simp add: foundit_eval)

end
